theory Spec2Isabelle
  imports Complex_Main "HOL-Library.AList"
begin

section \<open>JavaScript values\<close>

text \<open>
  The handlers of \<^verbatim>\<open>src/api\<close> pass around untyped JavaScript values: request bodies,
  results of the service modules, parsed upstream responses. They are modelled by one
  datatype. Numbers are exact rationals (the decimal literal \<^verbatim>\<open>0.011\<close> is the rational
  \<open>11/1000\<close>); \<^verbatim>\<open>NaN\<close> and the infinities are not represented. Strings are lists of
  8-bit code units. An object is the list of its own properties in insertion order.
\<close>

datatype jsval =
    JUndefined
  | JNull
  | JBool bool
  | JNum rat
  | JString string
  | JArray "jsval list"
  | JObject "(string \<times> jsval) list"

text \<open>Truthiness, as tested by \<^verbatim>\<open>!x\<close>, \<^verbatim>\<open>x ? a : b\<close> and \<^verbatim>\<open>x || y\<close>.\<close>

fun truthy :: "jsval \<Rightarrow> bool" where
  "truthy JUndefined = False"
| "truthy JNull = False"
| "truthy (JBool b) = b"
| "truthy (JNum n) = (n \<noteq> 0)"
| "truthy (JString s) = (s \<noteq> [])"
| "truthy (JArray xs) = True"
| "truthy (JObject kvs) = True"

text \<open>\<^verbatim>\<open>a || b\<close>\<close>

definition js_or :: "jsval \<Rightarrow> jsval \<Rightarrow> jsval" where
  "js_or a b = (if truthy a then a else b)"

definition nullish :: "jsval \<Rightarrow> bool" where
  "nullish v = (v = JUndefined \<or> v = JNull)"

text \<open>
  The own property \<open>k\<close> of a value that is neither \<^verbatim>\<open>null\<close> nor \<^verbatim>\<open>undefined\<close>;
  a name listed twice has the value of its last entry, as \<^verbatim>\<open>JSON.parse\<close> reads a repeated
  name. This is what \<^verbatim>\<open>v.k\<close> gives for the property names this program reads
  (\<^verbatim>\<open>image\<close>, \<^verbatim>\<open>prompt\<close>, \<^verbatim>\<open>style\<close>, \<^verbatim>\<open>useSDXL\<close>, \<^verbatim>\<open>era\<close>, \<^verbatim>\<open>movement\<close>,
  \<^verbatim>\<open>artist\<close>, \<^verbatim>\<open>method\<close>, \<^verbatim>\<open>details\<close>, \<^verbatim>\<open>negative_prompt\<close>, \<^verbatim>\<open>detail\<close>,
  \<^verbatim>\<open>retry_after\<close>): none of them is defined on a built-in prototype, so a missing own
  property reads as \<^verbatim>\<open>undefined\<close>. It is also how a reader of a JSON document finds a
  field.
\<close>

fun read_prop :: "jsval \<Rightarrow> string \<Rightarrow> jsval" where
  "read_prop (JObject kvs) k = (case map_of (rev kvs) k of Some v \<Rightarrow> v | None \<Rightarrow> JUndefined)"
| "read_prop v k = JUndefined"

text \<open>Decimal digits of a natural number, as a template literal prints an HTTP status.\<close>

definition digit_char :: "nat \<Rightarrow> char" where
  "digit_char d = ''0123456789'' ! d"

fun show_nat :: "nat \<Rightarrow> string" where
  "show_nat n = (if n < 10 then [digit_char n] else show_nat (n div 10) @ [digit_char (n mod 10)])"

declare show_nat.simps [simp del]

text \<open>
  The own enumerable properties copied by the spread \<^verbatim>\<open>{ ...v }\<close>: those of an object,
  the indices of an array or of a string, nothing for the other values.
\<close>

fun own_props :: "jsval \<Rightarrow> (string \<times> jsval) list" where
  "own_props (JObject kvs) = kvs"
| "own_props (JArray xs) = zip (map show_nat [0..<length xs]) xs"
| "own_props (JString s) = zip (map show_nat [0..<length s]) (map (\<lambda>c. JString [c]) s)"
| "own_props v = []"

text \<open>
  Defining properties one after the other in an object literal: a name already present
  keeps its place and takes the new value, a new name goes to the end. (An engine lists
  names that look like array indices first; that reordering is not modelled.)
\<close>

definition define_props :: "(string \<times> jsval) list \<Rightarrow> (string \<times> jsval) list \<Rightarrow> (string \<times> jsval) list" where
  "define_props kvs obj = fold (\<lambda>(k, v). AList.update k v) kvs obj"

text \<open>
  \<^verbatim>\<open>JSON.stringify\<close>, given here by the value a JSON reader gets back from the text:
  a property whose value is \<^verbatim>\<open>undefined\<close> is left out, an \<^verbatim>\<open>undefined\<close> array element
  becomes \<^verbatim>\<open>null\<close>.
\<close>

fun JSON_stringify :: "jsval \<Rightarrow> jsval" where
  "JSON_stringify (JObject kvs) =
     JObject (map (\<lambda>(k, v). (k, JSON_stringify v)) (filter (\<lambda>(k, v). v \<noteq> JUndefined) kvs))"
| "JSON_stringify (JArray xs) =
     JArray (map (\<lambda>v. if v = JUndefined then JNull else JSON_stringify v) xs)"
| "JSON_stringify v = v"

section \<open>Errors and the built-ins of the runtime\<close>

text \<open>
  A thrown \<^verbatim>\<open>Error\<close> object with the fields the handlers read or set.
  \<^verbatim>\<open>status\<close> and \<^verbatim>\<open>retry_after\<close> are \<open>None\<close> unless the program assigns them.
\<close>

record js_error =
  error_name :: string
  message :: string
  stack :: string
  status :: "nat option"
  retry_after :: "jsval option"

text \<open>
  What the JavaScript engine decides and this repository does not: the result of
  \<^verbatim>\<open>JSON.parse\<close> on a text (\<open>Inl\<close> the message of the \<^verbatim>\<open>SyntaxError\<close> it throws),
  the printing of a number, the stack trace captured for a new error, and the wording of
  the \<^verbatim>\<open>TypeError\<close> raised by a failing expression.
\<close>

record engine =
  JSON_parse :: "string \<Rightarrow> string + jsval"
  Number_toString :: "rat \<Rightarrow> string"
  stack_of :: "string \<Rightarrow> string \<Rightarrow> string"
  TypeError_message :: "string \<Rightarrow> string"

definition new_Error :: "engine \<Rightarrow> string \<Rightarrow> js_error" where
  "new_Error g msg =
     \<lparr>error_name = ''Error'', message = msg, stack = stack_of g ''Error'' msg,
      status = None, retry_after = None\<rparr>"

definition SyntaxError :: "engine \<Rightarrow> string \<Rightarrow> js_error" where
  "SyntaxError g msg =
     \<lparr>error_name = ''SyntaxError'', message = msg, stack = stack_of g ''SyntaxError'' msg,
      status = None, retry_after = None\<rparr>"

definition TypeError :: "engine \<Rightarrow> string \<Rightarrow> js_error" where
  "TypeError g expr =
     \<lparr>error_name = ''TypeError'', message = TypeError_message g expr,
      stack = stack_of g ''TypeError'' (TypeError_message g expr),
      status = None, retry_after = None\<rparr>"

text \<open>\<^verbatim>\<open>v.k\<close> where \<^verbatim>\<open>v\<close> may be \<^verbatim>\<open>null\<close> or \<^verbatim>\<open>undefined\<close>: that read throws.\<close>

definition member :: "engine \<Rightarrow> string \<Rightarrow> jsval \<Rightarrow> string \<Rightarrow> js_error + jsval" where
  "member g expr v k = (if nullish v then Inl (TypeError g expr) else Inr (read_prop v k))"

text \<open>
  The conversion to a string done by \<^verbatim>\<open>new Error(v)\<close>, for values that \<^verbatim>\<open>JSON.parse\<close>
  can return. An array joins its elements with commas (\<^verbatim>\<open>null\<close> prints as nothing);
  a plain object prints as \<^verbatim>\<open>[object Object]\<close>, unless it has an own property
  \<^verbatim>\<open>toString\<close>, which is then not callable and the conversion throws (\<open>None\<close>).
\<close>

fun join_comma :: "string list \<Rightarrow> string" where
  "join_comma [] = []"
| "join_comma [s] = s"
| "join_comma (s # ss) = s @ '','' @ join_comma ss"

fun ToString :: "engine \<Rightarrow> jsval \<Rightarrow> string option"
  and ToString_elements :: "engine \<Rightarrow> jsval list \<Rightarrow> string list option" where
  "ToString g JUndefined = Some ''undefined''"
| "ToString g JNull = Some ''null''"
| "ToString g (JBool b) = Some (if b then ''true'' else ''false'')"
| "ToString g (JNum n) = Some (Number_toString g n)"
| "ToString g (JString s) = Some s"
| "ToString g (JArray xs) = map_option join_comma (ToString_elements g xs)"
| "ToString g (JObject kvs) =
     (if ''toString'' \<in> fst ` set kvs then None else Some ''[object Object]'')"
| "ToString_elements g [] = Some []"
| "ToString_elements g (x # xs) =
     (case (if nullish x then Some [] else ToString g x) of
        None \<Rightarrow> None
      | Some s \<Rightarrow> (case ToString_elements g xs of None \<Rightarrow> None | Some ss \<Rightarrow> Some (s # ss)))"

section \<open>The environment of a handler\<close>

record process_env =
  NODE_ENV :: "string option"
  REPLICATE_API_KEY :: "string option"

text \<open>An outbound \<^verbatim>\<open>fetch\<close> call and the upstream response it resolves to.\<close>

record outbound =
  url :: string
  http_method :: string
  http_headers :: "(string \<times> string) list"
  http_body :: jsval

record http_response =
  response_status :: nat
  response_text :: string

definition ok :: "http_response \<Rightarrow> bool" where
  "ok response = (200 \<le> response_status response \<and> response_status response \<le> 299)"

text \<open>
  The modules under \<^verbatim>\<open>./services\<close> are not among the sources; their functions are
  parameters. Each call returns a value or throws. \<^verbatim>\<open>styleGuides\<close> and
  \<^verbatim>\<open>orientalArt\<close> map the name of an exported function to the outcome of calling it
  (\<open>None\<close>: no such export).
\<close>

record services =
  analyzeImageForArtist :: "jsval \<Rightarrow> js_error + jsval"
  selectArtistWithAI :: "jsval \<Rightarrow> jsval \<Rightarrow> jsval \<Rightarrow> js_error + jsval"
  buildArtistPrompt :: "jsval \<Rightarrow> jsval \<Rightarrow> jsval \<Rightarrow> js_error + jsval"
  cleanupPrompt :: "jsval \<Rightarrow> js_error + jsval"
  getControlStrength :: "jsval \<Rightarrow> js_error + jsval"
  logPromptDetails :: "jsval \<Rightarrow> jsval \<Rightarrow> jsval \<Rightarrow> js_error + unit"
  convertFluxToSDXL :: "jsval \<Rightarrow> jsval \<Rightarrow> jsval \<Rightarrow> js_error + jsval"
  styleGuides :: "string \<Rightarrow> (js_error + jsval) option"
  orientalArt :: "string \<Rightarrow> (js_error + jsval) option"

record ctx =
  eng :: engine
  env :: process_env
  fetch :: "outbound \<Rightarrow> js_error + http_response"
  svc :: services

section \<open>Calling the upstream API\<close>

text \<open>
  Modelled from the spec: \<^verbatim>\<open>rateLimiter.addToQueue\<close> of
  \<^verbatim>\<open>./services/rateLimiter.js\<close>, which is not among the sources. The spec's contract
  for it is \<^verbatim>\<open>submit(task) -> Promise\<close>, "a promise/future that resolves or rejects with
  exactly the operation's own outcome", and every submitted task eventually settles. For
  the one task of one request this is the outcome of running the task.
\<close>

definition addToQueue :: "(unit \<Rightarrow> 'a) \<Rightarrow> 'a" where
  "addToQueue task = task ()"

definition upstream_headers :: "process_env \<Rightarrow> (string \<times> string) list" where
  "upstream_headers e =
     [(''Authorization'',
         ''Token '' @ (case REPLICATE_API_KEY e of None \<Rightarrow> ''undefined'' | Some k \<Rightarrow> k)),
      (''Content-Type'', ''application/json''),
      (''Prefer'', ''wait'')]"

text \<open>\<^verbatim>\<open>await response.json()\<close>\<close>

definition response_json :: "engine \<Rightarrow> http_response \<Rightarrow> js_error + jsval" where
  "response_json g response =
     (case JSON_parse g (response_text response) of
        Inl m \<Rightarrow> Inl (SyntaxError g m)
      | Inr data \<Rightarrow> Inr data)"

text \<open>
  The block for status 429, the same text in \<^verbatim>\<open>callSDXLAPI\<close>, in \<^verbatim>\<open>callFluxAPI\<close> and
  in the task of \<^verbatim>\<open>testSDXLLightning\<close>. Every path through it throws; the result is the
  error thrown.
  \<^verbatim>\<open>
  const errorData = JSON.parse(errorText);
  const error = new Error(errorData.detail || 'Rate limited');
  error.status = 429;
  error.retry_after = errorData.retry_after || 10;
  throw error;
  \<close>
\<close>

definition rate_limited :: "engine \<Rightarrow> string \<Rightarrow> js_error" where
  "rate_limited g errorText =
     (case JSON_parse g errorText of
        Inl m \<Rightarrow> SyntaxError g m
      | Inr errorData \<Rightarrow>
          (case member g ''errorData.detail'' errorData ''detail'' of
             Inl e \<Rightarrow> e
           | Inr detail \<Rightarrow>
               (case ToString g (js_or detail (JString ''Rate limited'')) of
                  None \<Rightarrow> TypeError g ''new Error(errorData.detail)''
                | Some msg \<Rightarrow>
                    (new_Error g msg)
                      \<lparr>status := Some 429,
                       retry_after := Some (js_or (read_prop errorData ''retry_after'') (JNum 10))\<rparr>)))"

definition sdxl_url :: string where
  "sdxl_url = ''https://api.replicate.com/v1/models/bytedance/sdxl-lightning-4step/predictions''"

definition flux_url :: string where
  "flux_url = ''https://api.replicate.com/v1/models/black-forest-labs/flux-depth-dev/predictions''"

text \<open>The arguments of the \<^verbatim>\<open>fetch\<close> in \<^verbatim>\<open>callSDXLAPI\<close>.\<close>

definition sdxl_request :: "process_env \<Rightarrow> jsval \<Rightarrow> jsval \<Rightarrow> jsval \<Rightarrow> outbound" where
  "sdxl_request e img prompt negativePrompt =
     \<lparr>url = sdxl_url, http_method = ''POST'', http_headers = upstream_headers e,
      http_body = JSON_stringify (JObject [(''input'', JObject
        [(''prompt'', prompt),
         (''negative_prompt'', negativePrompt),
         (''image'', img),
         (''num_inference_steps'', JNum 4),
         (''guidance_scale'', JNum 0),
         (''scheduler'', JString ''K_EULER''),
         (''num_outputs'', JNum 1),
         (''disable_safety_checker'', JBool False),
         (''output_format'', JString ''jpg''),
         (''output_quality'', JNum 90)])])\<rparr>"

definition callSDXLAPI :: "ctx \<Rightarrow> jsval \<Rightarrow> jsval \<Rightarrow> jsval \<Rightarrow> outbound list \<times> (js_error + jsval)" where
  "callSDXLAPI c img prompt negativePrompt =
     addToQueue (\<lambda>_.
       let rq = sdxl_request (env c) img prompt negativePrompt
       in case fetch c rq of
            Inl e \<Rightarrow> ([rq], Inl e)
          | Inr response \<Rightarrow>
              if \<not> ok response then
                (if response_status response = 429
                 then ([rq], Inl (rate_limited (eng c) (response_text response)))
                 else ([rq], Inl (new_Error (eng c)
                                   (''SDXL API error: '' @ show_nat (response_status response)))))
              else ([rq], response_json (eng c) response))"

text \<open>
  The arguments of the \<^verbatim>\<open>fetch\<close> in \<^verbatim>\<open>callFluxAPI\<close>, and in \<^verbatim>\<open>callReplicateAPI\<close> of
  \<^verbatim>\<open>flux-transfer-refactored.js\<close>, which has the same text.
\<close>

definition flux_request :: "process_env \<Rightarrow> jsval \<Rightarrow> jsval \<Rightarrow> jsval \<Rightarrow> outbound" where
  "flux_request e img prompt controlStrength =
     \<lparr>url = flux_url, http_method = ''POST'', http_headers = upstream_headers e,
      http_body = JSON_stringify (JObject [(''input'', JObject
        [(''control_image'', img),
         (''prompt'', prompt),
         (''num_inference_steps'', JNum 24),
         (''guidance'', JNum 12),
         (''control_strength'', controlStrength),
         (''output_format'', JString ''jpg''),
         (''output_quality'', JNum 90)])])\<rparr>"

definition callFluxAPI :: "ctx \<Rightarrow> jsval \<Rightarrow> jsval \<Rightarrow> jsval \<Rightarrow> outbound list \<times> (js_error + jsval)" where
  "callFluxAPI c img prompt controlStrength =
     addToQueue (\<lambda>_.
       let rq = flux_request (env c) img prompt controlStrength
       in case fetch c rq of
            Inl e \<Rightarrow> ([rq], Inl e)
          | Inr response \<Rightarrow>
              if \<not> ok response then
                (if response_status response = 429
                 then ([rq], Inl (rate_limited (eng c) (response_text response)))
                 else ([rq], Inl (new_Error (eng c)
                                   (''FLUX API error: '' @ show_nat (response_status response)))))
              else ([rq], response_json (eng c) response))"

text \<open>
  \<^verbatim>\<open>callReplicateAPI\<close> of \<^verbatim>\<open>flux-transfer-refactored.js\<close>: no queue and no block for
  status 429.
\<close>

definition callReplicateAPI :: "ctx \<Rightarrow> jsval \<Rightarrow> jsval \<Rightarrow> jsval \<Rightarrow> outbound list \<times> (js_error + jsval)" where
  "callReplicateAPI c img prompt controlStrength =
     (let rq = flux_request (env c) img prompt controlStrength
      in case fetch c rq of
           Inl e \<Rightarrow> ([rq], Inl e)
         | Inr response \<Rightarrow>
             if \<not> ok response then
               ([rq], Inl (new_Error (eng c)
                             (''FLUX API error: '' @ show_nat (response_status response))))
             else ([rq], response_json (eng c) response))"

text \<open>
  The task that \<^verbatim>\<open>testSDXLLightning\<close> passes to \<^verbatim>\<open>rateLimiter.addToQueue\<close>, and the
  arguments of its \<^verbatim>\<open>fetch\<close>.
\<close>

definition test_request :: "process_env \<Rightarrow> jsval \<Rightarrow> jsval \<Rightarrow> outbound" where
  "test_request e img prompt =
     \<lparr>url = sdxl_url, http_method = ''POST'', http_headers = upstream_headers e,
      http_body = JSON_stringify (JObject [(''input'', JObject
        [(''prompt'', prompt),
         (''image'', img),
         (''num_inference_steps'', JNum 4),
         (''guidance_scale'', JNum 0),
         (''scheduler'', JString ''K_EULER''),
         (''num_outputs'', JNum 1),
         (''disable_safety_checker'', JBool False),
         (''output_format'', JString ''jpg''),
         (''output_quality'', JNum 90)])])\<rparr>"

definition testSDXLLightning_task :: "ctx \<Rightarrow> jsval \<Rightarrow> jsval \<Rightarrow> outbound list \<times> (js_error + jsval)" where
  "testSDXLLightning_task c img prompt =
     (let rq = test_request (env c) img prompt
      in case fetch c rq of
           Inl e \<Rightarrow> ([rq], Inl e)
         | Inr response \<Rightarrow>
             if \<not> ok response then
               (if response_status response = 429
                then ([rq], Inl (rate_limited (eng c) (response_text response)))
                else ([rq], Inl (new_Error (eng c)
                                  (''SDXL API error: '' @ show_nat (response_status response)))))
             else ([rq], response_json (eng c) response))"

section \<open>Requests and responses of a handler\<close>

record request =
  req_method :: string
  req_body :: jsval

text \<open>
  The response object \<^verbatim>\<open>res\<close>, with what the handlers do to it: \<^verbatim>\<open>setHeader\<close>,
  \<^verbatim>\<open>status\<close>, \<^verbatim>\<open>json\<close> and \<^verbatim>\<open>end\<close>. \<open>sent\<close> is the JSON document of the body,
  \<open>None\<close> when the response has no body.
\<close>

record res =
  headers :: "(string \<times> string) list"
  statusCode :: nat
  sent :: "jsval option"
  finished :: bool

definition new_res :: res where
  "new_res = \<lparr>headers = [], statusCode = 200, sent = None, finished = False\<rparr>"

definition setHeader :: "string \<Rightarrow> string \<Rightarrow> res \<Rightarrow> res" where
  "setHeader k v r = r\<lparr>headers := AList.update k v (headers r)\<rparr>"

definition res_status :: "nat \<Rightarrow> res \<Rightarrow> res" where
  "res_status n r = r\<lparr>statusCode := n\<rparr>"

definition res_json :: "jsval \<Rightarrow> res \<Rightarrow> res" where
  "res_json obj r = r\<lparr>sent := Some (JSON_stringify obj), finished := True\<rparr>"

definition res_end :: "res \<Rightarrow> res" where
  "res_end r = r\<lparr>finished := True\<rparr>"

text \<open>
  One statement of a \<^verbatim>\<open>try\<close> block that makes no upstream call: when it throws, the
  block is left with the error and no call has been made.
\<close>

definition step :: "js_error + 'a \<Rightarrow> ('a \<Rightarrow> outbound list \<times> (js_error + 'b)) \<Rightarrow> outbound list \<times> (js_error + 'b)" where
  "step m f = (case m of Inl e \<Rightarrow> ([], Inl e) | Inr x \<Rightarrow> f x)"

text \<open>
  \<^verbatim>\<open>basePrompt.substring(0, 100)\<close> in the logging line: only a string has the method.
\<close>

definition substring_0_100 :: "engine \<Rightarrow> jsval \<Rightarrow> js_error + string" where
  "substring_0_100 g v =
     (case v of JString s \<Rightarrow> Inr (take 100 s) | _ \<Rightarrow> Inl (TypeError g ''prompt.substring''))"

section \<open>getStyleGuidelines\<close>

definition lower_char :: "char \<Rightarrow> char" where
  "lower_char ch =
     (let n = (of_char ch :: nat)
      in if (65 \<le> n \<and> n \<le> 90) \<or> (192 \<le> n \<and> n \<le> 222 \<and> n \<noteq> 215) then char_of (n + 32) else ch)"

definition toLowerCase :: "string \<Rightarrow> string" where
  "toLowerCase s = map lower_char s"

definition guideMap :: "services \<Rightarrow> (string \<times> (js_error + jsval) option) list" where
  "guideMap s =
     [(''ancient'', styleGuides s ''getAncientGreekRomanGuidelines''),
      (''medieval'', styleGuides s ''getMedievalGuidelines''),
      (''renaissance'', styleGuides s ''getRenaissanceGuidelines''),
      (''baroque'', styleGuides s ''getBaroqueGuidelines''),
      (''rococo'', styleGuides s ''getRococoGuidelines''),
      (''neoclassical'', styleGuides s ''getNeoclassicalRomanticismRealismGuidelines''),
      (''romantic'', styleGuides s ''getNeoclassicalRomanticismRealismGuidelines''),
      (''realist'', styleGuides s ''getNeoclassicalRomanticismRealismGuidelines''),
      (''impressionism'', styleGuides s ''getImpressionismGuidelines''),
      (''post-impressionism'', styleGuides s ''getPostImpressionismGuidelines''),
      (''fauvism'', styleGuides s ''getFauvismGuidelines''),
      (''expressionism'', styleGuides s ''getExpressionismGuidelines''),
      (''korean'', orientalArt s ''getKoreanArtGuidelines''),
      (''chinese'', orientalArt s ''getChineseArtGuidelines''),
      (''japanese'', orientalArt s ''getJapaneseArtGuidelines'')]"

text \<open>
  The same function stands in \<^verbatim>\<open>flux-transfer-sdxl.js\<close> and in
  \<^verbatim>\<open>flux-transfer-refactored.js\<close>. \<^verbatim>\<open>guideMap[era]\<close> also finds what the object
  literal inherits: \<^verbatim>\<open>constructor\<close> is the function \<^verbatim>\<open>Object\<close>, whose call returns an
  empty object, and \<^verbatim>\<open>__proto__\<close> is an object that cannot be called.
\<close>

definition getStyleGuidelines :: "ctx \<Rightarrow> jsval \<Rightarrow> js_error + jsval" where
  "getStyleGuidelines c style =
     (if \<not> truthy style then Inr (JString [])
      else
        (case js_or (js_or (read_prop style ''era'') (read_prop style ''movement'')) (JString []) of
           JString s \<Rightarrow>
             (let era = toLowerCase s
              in case map_of (guideMap (svc c)) era of
                   Some (Some guideFunction) \<Rightarrow> guideFunction
                 | Some None \<Rightarrow> Inr (JString [])
                 | None \<Rightarrow>
                     if era = ''constructor'' then Inr (JObject [])
                     else if era = ''__proto__'' then Inl (TypeError (eng c) ''guideFunction()'')
                     else Inr (JString []))
         | _ \<Rightarrow> Inl (TypeError (eng c) ''toLowerCase'')))"

section \<open>The handlers\<close>

text \<open>
  The \<^verbatim>\<open>catch\<close> block that closes each of the three handlers:
  \<^verbatim>\<open>
  res.status(500).json({
    error: error.message,
    stack: process.env.NODE_ENV === 'development' ? error.stack : undefined
  });
  \<close>
\<close>

definition catch_block :: "ctx \<Rightarrow> js_error \<Rightarrow> res \<Rightarrow> res" where
  "catch_block c error r =
     res_json (JObject
       [(''error'', JString (message error)),
        (''stack'', if NODE_ENV (env c) = Some ''development'' then JString (stack error)
                    else JUndefined)])
       (res_status 500 r)"

definition missing_fields :: jsval where
  "missing_fields =
     JObject [(''error'', JString ''Missing required fields''),
              (''required'', JArray [JString ''image'', JString ''prompt''])]"

text \<open>
  \<^verbatim>\<open>response = await call(...)\<close> followed by \<^verbatim>\<open>res.status(200).json(body)\<close>: a
  rejected call leaves the \<^verbatim>\<open>try\<close> block with its error.
\<close>

definition answer_200 :: "(jsval \<Rightarrow> jsval) \<Rightarrow> outbound list \<times> (js_error + jsval) \<Rightarrow> outbound list \<times> (js_error + nat \<times> jsval)" where
  "answer_200 body api =
     (case api of
        (calls, Inl error) \<Rightarrow> (calls, Inl error)
      | (calls, Inr response) \<Rightarrow> (calls, Inr (200, body response)))"

text \<open>A destructuring default, \<^verbatim>\<open>{ k = d }\<close>: it applies when the property is \<^verbatim>\<open>undefined\<close>.\<close>

definition with_default :: "jsval \<Rightarrow> jsval \<Rightarrow> jsval" where
  "with_default v d = (if v = JUndefined then d else v)"

text \<open>
  Step 5 of \<^verbatim>\<open>handler\<close> in \<^verbatim>\<open>flux-transfer-sdxl.js\<close> (lines 88 to 114), the choice of
  the model:
  \<^verbatim>\<open>
  if (useSDXL) {
    const { prompt: sdxlPrompt, negative_prompt } = convertFluxToSDXL(finalPrompt, style, artistSelection.artist);
    response = await callSDXLAPI(image, sdxlPrompt, negative_prompt);
  } else {
    const controlStrength = getControlStrength(finalPrompt);
    response = await callFluxAPI(image, finalPrompt, controlStrength);
  }
  \<close>
\<close>

definition call_model :: "ctx \<Rightarrow> jsval \<Rightarrow> jsval \<Rightarrow> jsval \<Rightarrow> jsval \<Rightarrow> jsval \<Rightarrow> outbound list \<times> (js_error + jsval)" where
  "call_model c useSDXL img finalPrompt style artist =
     (if truthy useSDXL then
        step (convertFluxToSDXL (svc c) finalPrompt style artist) (\<lambda>converted.
        step (member (eng c) ''convertFluxToSDXL(...)'' converted ''prompt'') (\<lambda>sdxlPrompt.
          callSDXLAPI c img sdxlPrompt (read_prop converted ''negative_prompt'')))
      else
        step (getControlStrength (svc c) finalPrompt) (\<lambda>controlStrength.
          callFluxAPI c img finalPrompt controlStrength))"

text \<open>
  Step 6 (lines 117 to 124), the object given to \<^verbatim>\<open>res.status(200).json\<close>:
  \<^verbatim>\<open>
  { ...response,
    selected_artist: artistSelection.artist,
    selection_method: artistSelection.method,
    selection_details: artistSelection.details,
    model_used: modelType,
    cost: useSDXL ? 0.011 : 0.04 }
  \<close>
  with \<^verbatim>\<open>modelType = useSDXL ? 'SDXL Lightning' : 'FLUX Depth'\<close>.
\<close>

definition success_object :: "jsval \<Rightarrow> jsval \<Rightarrow> jsval \<Rightarrow> jsval" where
  "success_object useSDXL artistSelection response =
     JObject
       (define_props
          [(''selected_artist'', read_prop artistSelection ''artist''),
           (''selection_method'', read_prop artistSelection ''method''),
           (''selection_details'', read_prop artistSelection ''details''),
           (''model_used'', JString (if truthy useSDXL then ''SDXL Lightning'' else ''FLUX Depth'')),
           (''cost'', if truthy useSDXL then JNum 0.011 else JNum 0.04)]
          (define_props (own_props response) []))"

text \<open>
  The \<^verbatim>\<open>try\<close> block of \<^verbatim>\<open>handler\<close> in \<^verbatim>\<open>flux-transfer-sdxl.js\<close>: the upstream calls
  it made, and either the error it threw or the status and the object it answered with.
\<close>

definition handler_try :: "ctx \<Rightarrow> request \<Rightarrow> outbound list \<times> (js_error + nat \<times> jsval)" where
  "handler_try c req =
     (if nullish (req_body req) then ([], Inl (TypeError (eng c) ''req.body''))
      else
        let img = read_prop (req_body req) ''image'';
            basePrompt = read_prop (req_body req) ''prompt'';
            style = read_prop (req_body req) ''style'';
            useSDXL = with_default (read_prop (req_body req) ''useSDXL'') (JBool True)
        in
          if \<not> truthy img \<or> \<not> truthy basePrompt then ([], Inr (400, missing_fields))
          else
            step (substring_0_100 (eng c) basePrompt) (\<lambda>_.
            step (analyzeImageForArtist (svc c) img) (\<lambda>imageAnalysis.
            step (getStyleGuidelines c style) (\<lambda>guidelines.
            step (selectArtistWithAI (svc c) imageAnalysis style guidelines) (\<lambda>artistSelection.
            step (member (eng c) ''artistSelection.artist'' artistSelection ''artist'') (\<lambda>artist.
            step (buildArtistPrompt (svc c) basePrompt artist style) (\<lambda>builtPrompt.
            step (cleanupPrompt (svc c) builtPrompt) (\<lambda>finalPrompt.
              answer_200 (success_object useSDXL artistSelection)
                (call_model c useSDXL img finalPrompt style artist)))))))))"

definition handler :: "ctx \<Rightarrow> request \<Rightarrow> res \<Rightarrow> res \<times> outbound list" where
  "handler c req res0 =
     (let r = setHeader ''Access-Control-Allow-Headers'' ''Content-Type''
               (setHeader ''Access-Control-Allow-Methods'' ''POST, OPTIONS''
                 (setHeader ''Access-Control-Allow-Origin'' ''*'' res0))
      in if req_method req = ''OPTIONS'' then (res_end (res_status 200 r), [])
         else if req_method req \<noteq> ''POST'' then
           (res_json (JObject [(''error'', JString ''Method not allowed'')]) (res_status 405 r), [])
         else
           (case handler_try c req of
              (calls, Inl error) \<Rightarrow> (catch_block c error r, calls)
            | (calls, Inr (code, obj)) \<Rightarrow> (res_json obj (res_status code r), calls)))"

text \<open>The handler of \<^verbatim>\<open>flux-transfer-refactored.js\<close>, the one the route table names.\<close>

definition success_object_refactored :: "jsval \<Rightarrow> jsval \<Rightarrow> jsval" where
  "success_object_refactored artistSelection response =
     JObject
       (define_props
          [(''selected_artist'', read_prop artistSelection ''artist''),
           (''selection_method'', read_prop artistSelection ''method''),
           (''selection_details'', read_prop artistSelection ''details'')]
          (define_props (own_props response) []))"

definition handler_refactored_try :: "ctx \<Rightarrow> request \<Rightarrow> outbound list \<times> (js_error + nat \<times> jsval)" where
  "handler_refactored_try c req =
     (if nullish (req_body req) then ([], Inl (TypeError (eng c) ''req.body''))
      else
        let img = read_prop (req_body req) ''image'';
            basePrompt = read_prop (req_body req) ''prompt'';
            style = read_prop (req_body req) ''style''
        in
          if \<not> truthy img \<or> \<not> truthy basePrompt then ([], Inr (400, missing_fields))
          else
            step (substring_0_100 (eng c) basePrompt) (\<lambda>_.
            step (analyzeImageForArtist (svc c) img) (\<lambda>imageAnalysis.
            step (getStyleGuidelines c style) (\<lambda>guidelines.
            step (selectArtistWithAI (svc c) imageAnalysis style guidelines) (\<lambda>artistSelection.
            step (member (eng c) ''artistSelection.artist'' artistSelection ''artist'') (\<lambda>artist.
            step (buildArtistPrompt (svc c) basePrompt artist style) (\<lambda>builtPrompt.
            step (cleanupPrompt (svc c) builtPrompt) (\<lambda>finalPrompt.
            step (getControlStrength (svc c) finalPrompt) (\<lambda>controlStrength.
            step (logPromptDetails (svc c) basePrompt finalPrompt artist) (\<lambda>_.
              answer_200 (success_object_refactored artistSelection)
                (callReplicateAPI c img finalPrompt controlStrength)))))))))))"

definition handler_refactored :: "ctx \<Rightarrow> request \<Rightarrow> res \<Rightarrow> res \<times> outbound list" where
  "handler_refactored c req res0 =
     (let r = setHeader ''Access-Control-Allow-Headers'' ''Content-Type''
               (setHeader ''Access-Control-Allow-Methods'' ''POST, OPTIONS''
                 (setHeader ''Access-Control-Allow-Origin'' ''*'' res0))
      in if req_method req = ''OPTIONS'' then (res_end (res_status 200 r), [])
         else if req_method req \<noteq> ''POST'' then
           (res_json (JObject [(''error'', JString ''Method not allowed'')]) (res_status 405 r), [])
         else
           (case handler_refactored_try c req of
              (calls, Inl error) \<Rightarrow> (catch_block c error r, calls)
            | (calls, Inr (code, obj)) \<Rightarrow> (res_json obj (res_status code r), calls)))"

text \<open>\<^verbatim>\<open>testSDXLLightning\<close> of \<^verbatim>\<open>sdxl-lightning-test.js\<close>.\<close>

definition success_object_test :: "jsval \<Rightarrow> jsval" where
  "success_object_test result =
     JObject
       (define_props
          [(''model'', JString ''sdxl-lightning-4step''),
           (''cost'', JNum 0.011),
           (''comparison'', JObject
              [(''flux_cost'', JNum 0.04),
               (''savings'', JString ''72.5%''),
               (''speed_improvement'', JString ''2.5x'')])]
          (define_props (own_props result) []))"

definition testSDXLLightning_try :: "ctx \<Rightarrow> request \<Rightarrow> outbound list \<times> (js_error + nat \<times> jsval)" where
  "testSDXLLightning_try c req =
     (if nullish (req_body req) then ([], Inl (TypeError (eng c) ''req.body''))
      else
        let img = read_prop (req_body req) ''image'';
            prompt = read_prop (req_body req) ''prompt''
        in
          if \<not> truthy img \<or> \<not> truthy prompt then ([], Inr (400, missing_fields))
          else
            step (substring_0_100 (eng c) prompt) (\<lambda>_.
              answer_200 success_object_test
                (addToQueue (\<lambda>_. testSDXLLightning_task c img prompt))))"

definition testSDXLLightning :: "ctx \<Rightarrow> request \<Rightarrow> res \<Rightarrow> res \<times> outbound list" where
  "testSDXLLightning c req res0 =
     (let r = setHeader ''Access-Control-Allow-Headers'' ''Content-Type''
               (setHeader ''Access-Control-Allow-Methods'' ''POST, OPTIONS''
                 (setHeader ''Access-Control-Allow-Origin'' ''*'' res0))
      in if req_method req = ''OPTIONS'' then (res_end (res_status 200 r), [])
         else if req_method req \<noteq> ''POST'' then
           (res_json (JObject [(''error'', JString ''Method not allowed'')]) (res_status 405 r), [])
         else
           (case testSDXLLightning_try c req of
              (calls, Inl error) \<Rightarrow> (catch_block c error r, calls)
            | (calls, Inr (code, obj)) \<Rightarrow> (res_json obj (res_status code r), calls)))"

section \<open>The middleware of index.js\<close>

text \<open>
  A handler as the middleware sees it: it works on \<^verbatim>\<open>res\<close> and may throw. On a throw
  the changes already made to \<^verbatim>\<open>res\<close> stay.
\<close>

type_synonym handler_fn = "request \<Rightarrow> res \<Rightarrow> res \<times> js_error option"

text \<open>The three handlers above catch every error of their \<^verbatim>\<open>try\<close> block.\<close>

definition as_handler_fn :: "(request \<Rightarrow> res \<Rightarrow> res \<times> outbound list) \<Rightarrow> handler_fn" where
  "as_handler_fn f req r = (fst (f req r), None)"

definition withCORS :: "handler_fn \<Rightarrow> handler_fn" where
  "withCORS h req res0 =
     (let r = setHeader ''Access-Control-Allow-Headers'' ''Content-Type''
               (setHeader ''Access-Control-Allow-Methods'' ''GET, POST, OPTIONS''
                 (setHeader ''Access-Control-Allow-Origin'' ''*'' res0))
      in if req_method req = ''OPTIONS'' then (res_end (res_status 200 r), None)
         else h req r)"

definition withErrorHandling :: "process_env \<Rightarrow> handler_fn \<Rightarrow> handler_fn" where
  "withErrorHandling e h req res0 =
     (case h req res0 of
        (r, None) \<Rightarrow> (r, None)
      | (r, Some error) \<Rightarrow>
          (res_json (JObject
             [(''error'', JString ''Internal server error''),
              (''message'', if NODE_ENV e = Some ''development'' then JString (message error)
                            else JUndefined),
              (''stack'', if NODE_ENV e = Some ''development'' then JString (stack error)
                          else JUndefined)])
             (res_status 500 r), None))"

section \<open>The admission gate\<close>

text \<open>
  Modelled from the spec: the queue behind \<^verbatim>\<open>rateLimiter.addToQueue\<close>
  (\<^verbatim>\<open>./services/rateLimiter.js\<close> is not among the sources). The spec, section 4.1:
  the gate "maintains an ordered waiting list. On submit, the task is appended; if the
  current in-flight count is below the configured limit, it begins immediately; otherwise
  it waits. On completion (success or failure) of any in-flight task, the in-flight count
  decrements and the next waiting task (FIFO) begins, if any." The limit is at least 1,
  and in this system it is 1. The gate is a state machine over two actions, the
  submission of a task and the settling of a task in flight; \<open>history\<close> records when each
  task began and when it settled.
\<close>

datatype 'a gate_event = Started 'a | Settled 'a

datatype 'a gate_action = Submit 'a | Complete 'a

record 'a gate =
  limit :: nat
  waiting :: "'a list"
  running :: "'a list"
  history :: "'a gate_event list"

definition new_gate :: "nat \<Rightarrow> 'a gate" where
  "new_gate k = \<lparr>limit = k, waiting = [], running = [], history = []\<rparr>"

definition start_next :: "'a gate \<Rightarrow> 'a gate" where
  "start_next g =
     (case waiting g of
        [] \<Rightarrow> g
      | t # ts \<Rightarrow>
          if length (running g) < max 1 (limit g)
          then g\<lparr>waiting := ts, running := running g @ [t], history := history g @ [Started t]\<rparr>
          else g)"

definition submit :: "'a \<Rightarrow> 'a gate \<Rightarrow> 'a gate" where
  "submit t g = start_next (g\<lparr>waiting := waiting g @ [t]\<rparr>)"

definition complete :: "'a \<Rightarrow> 'a gate \<Rightarrow> 'a gate" where
  "complete t g =
     (if t \<in> set (running g)
      then start_next (g\<lparr>running := remove1 t (running g), history := history g @ [Settled t]\<rparr>)
      else g)"

fun gate_step :: "'a gate \<Rightarrow> 'a gate_action \<Rightarrow> 'a gate" where
  "gate_step g (Submit t) = submit t g"
| "gate_step g (Complete t) = complete t g"

definition run_gate :: "nat \<Rightarrow> 'a gate_action list \<Rightarrow> 'a gate" where
  "run_gate k acts = foldl gate_step (new_gate k) acts"

text \<open>The tasks submitted, and the tasks begun, each in order.\<close>

fun submitted :: "'a gate_action list \<Rightarrow> 'a list" where
  "submitted [] = []"
| "submitted (Submit t # acts) = t # submitted acts"
| "submitted (Complete t # acts) = submitted acts"

fun started :: "'a gate_event list \<Rightarrow> 'a list" where
  "started [] = []"
| "started (Started t # evs) = t # started evs"
| "started (Settled t # evs) = started evs"

text \<open>
  A history is serial when each task that began has settled before the next one begins:
  it reads begin, settle, begin, settle, and may stop after a begin.
\<close>

fun serial :: "'a gate_event list \<Rightarrow> bool" where
  "serial [] = True"
| "serial [Started a] = True"
| "serial (Started a # Settled b # evs) = (a = b \<and> serial evs)"
| "serial evs = False"

text \<open>The task in flight at the end of a history of a gate with limit 1.\<close>

fun open_task :: "'a gate_event list \<Rightarrow> 'a list" where
  "open_task [] = []"
| "open_task [Started a] = [a]"
| "open_task [Settled a] = []"
| "open_task (e1 # e2 # evs) = open_task evs"

definition gate_inv :: "'a gate \<Rightarrow> bool" where
  "gate_inv g =
     (limit g = 1 \<and> serial (history g) \<and> running g = open_task (history g) \<and>
      (running g \<noteq> [] \<or> waiting g = []))"

section \<open>Merging, as the spec words it\<close>

text \<open>
  From the spec's words for the 200 response, "upstream result fields merged with" further
  fields: every name of the body reads as the further field of that name when there is
  one, and as the upstream result's own field otherwise, each as JSON carries it.
\<close>

definition merged_with :: "jsval \<Rightarrow> jsval \<Rightarrow> (string \<times> jsval) list \<Rightarrow> bool" where
  "merged_with body upstream extras =
     (\<forall>k. read_prop body k =
        JSON_stringify (case map_of extras k of
                          Some v \<Rightarrow> v
                        | None \<Rightarrow> read_prop (JObject (own_props upstream)) k))"

text \<open>
  From the spec's words for the headers: a response carries
  \<^verbatim>\<open>Access-Control-Allow-Origin: *\<close>, the given allowed methods and the allowed header
  \<^verbatim>\<open>Content-Type\<close>.
\<close>

definition carries_cors :: "res \<Rightarrow> string \<Rightarrow> bool" where
  "carries_cors r allowed_methods =
     (map_of (headers r) ''Access-Control-Allow-Origin'' = Some ''*'' \<and>
      map_of (headers r) ''Access-Control-Allow-Methods'' = Some allowed_methods \<and>
      map_of (headers r) ''Access-Control-Allow-Headers'' = Some ''Content-Type'')"

section \<open>Valid requests\<close>

text \<open>
  The service functions are parameters, so what "a valid request" needs from them is said
  here: no service function throws, and the two whose result the handler reads a property
  of return something other than \<^verbatim>\<open>null\<close> or \<^verbatim>\<open>undefined\<close>. A valid request is a
  POST with a truthy \<^verbatim>\<open>image\<close> and a non-empty string as \<^verbatim>\<open>prompt\<close>, for whose
  \<^verbatim>\<open>style\<close> the guidelines are found, under such services.
\<close>

definition services_succeed :: "services \<Rightarrow> bool" where
  "services_succeed s =
     ((\<forall>i. \<exists>v. analyzeImageForArtist s i = Inr v) \<and>
      (\<forall>a st g. \<exists>v. selectArtistWithAI s a st g = Inr v \<and> \<not> nullish v) \<and>
      (\<forall>p a st. \<exists>v. buildArtistPrompt s p a st = Inr v) \<and>
      (\<forall>p. \<exists>v. cleanupPrompt s p = Inr v) \<and>
      (\<forall>p. \<exists>v. getControlStrength s p = Inr v) \<and>
      (\<forall>p st a. \<exists>v. convertFluxToSDXL s p st a = Inr v \<and> \<not> nullish v))"

definition valid_request :: "ctx \<Rightarrow> request \<Rightarrow> bool" where
  "valid_request c req =
     (req_method req = ''POST'' \<and>
      truthy (read_prop (req_body req) ''image'') \<and>
      (\<exists>p. p \<noteq> [] \<and> read_prop (req_body req) ''prompt'' = JString p) \<and>
      (\<exists>g. getStyleGuidelines c (read_prop (req_body req) ''style'') = Inr g) \<and>
      services_succeed (svc c))"

section \<open>A concrete environment\<close>

text \<open>
  An environment on which the handlers can be run: an engine that parses the upstream
  bodies used below as \<^verbatim>\<open>JSON.parse\<close> does and rejects every other text, service
  functions that return fixed values, and an upstream that gives every request the same
  response.
\<close>

definition slow_down_body :: string where
  \<open>slow_down_body = ''{"detail":"slow down","retry_after":15}''\<close>

definition output_body :: string where
  \<open>output_body = ''{"output":"out.jpg"}''\<close>

definition falsy_body :: string where
  \<open>falsy_body = ''{"detail":null,"retry_after":0}''\<close>

definition toString_body :: string where
  \<open>toString_body = ''{"detail":{"toString":1},"retry_after":0}''\<close>

definition example_engine :: engine where
  "example_engine =
     \<lparr>JSON_parse = (\<lambda>text.
        if text = slow_down_body
        then Inr (JObject [(''detail'', JString ''slow down''), (''retry_after'', JNum 15)])
        else if text = output_body then Inr (JObject [(''output'', JString ''out.jpg'')])
        else if text = ''{}'' then Inr (JObject [])
        else if text = ''null'' then Inr JNull
        else if text = falsy_body
        then Inr (JObject [(''detail'', JNull), (''retry_after'', JNum 0)])
        else if text = toString_body
        then Inr (JObject [(''detail'', JObject [(''toString'', JNum 1)]), (''retry_after'', JNum 0)])
        else Inl ''Unexpected token in JSON''),
      Number_toString = (\<lambda>q. show_nat (nat \<lfloor>q\<rfloor>)),
      stack_of = (\<lambda>n m. n @ '': '' @ m),
      TypeError_message = (\<lambda>expr. ''Cannot evaluate '' @ expr)\<rparr>"

definition example_services :: services where
  "example_services =
     \<lparr>analyzeImageForArtist = (\<lambda>i. Inr (JObject [(''subject'', JString ''portrait'')])),
      selectArtistWithAI = (\<lambda>a s g. Inr (JObject
         [(''artist'', JString ''Monet''), (''method'', JString ''ai''),
          (''details'', JString ''soft light'')])),
      buildArtistPrompt = (\<lambda>p a s. Inr p),
      cleanupPrompt = (\<lambda>p. Inr p),
      getControlStrength = (\<lambda>p. Inr (JNum 0.8)),
      logPromptDetails = (\<lambda>b f a. Inr ()),
      convertFluxToSDXL = (\<lambda>p s a. Inr (JObject
         [(''prompt'', p), (''negative_prompt'', JString ''blurry'')])),
      styleGuides = (\<lambda>f. Some (Inr (JString ''guide''))),
      orientalArt = (\<lambda>f. Some (Inr (JString ''guide'')))\<rparr>"

definition example_ctx :: "string option \<Rightarrow> http_response \<Rightarrow> ctx" where
  "example_ctx mode response =
     \<lparr>eng = example_engine,
      env = \<lparr>NODE_ENV = mode, REPLICATE_API_KEY = Some ''key''\<rparr>,
      fetch = (\<lambda>rq. Inr response),
      svc = example_services\<rparr>"

definition example_request :: "(string \<times> jsval) list \<Rightarrow> request" where
  "example_request extra =
     \<lparr>req_method = ''POST'',
      req_body = JObject ([(''image'', JString ''data:image/png;base64,AAAA''),
                           (''prompt'', JString ''a portrait'')] @ extra)\<rparr>"

section \<open>Unfolding the model\<close>

lemmas example_defs = example_ctx_def example_request_def example_services_def example_engine_def
  output_body_def slow_down_body_def falsy_body_def toString_body_def

lemmas handler_defs = handler_def handler_try_def handler_refactored_def handler_refactored_try_def
  testSDXLLightning_def testSDXLLightning_try_def catch_block_def missing_fields_def
  answer_200_def with_default_def call_model_def success_object_def success_object_refactored_def
  success_object_test_def step_def substring_0_100_def getStyleGuidelines_def member_def nullish_def
  new_res_def setHeader_def res_status_def res_json_def res_end_def define_props_def

lemmas call_defs = callSDXLAPI_def callFluxAPI_def callReplicateAPI_def testSDXLLightning_task_def
  addToQueue_def ok_def response_json_def rate_limited_def new_Error_def SyntaxError_def TypeError_def
  js_or_def sdxl_request_def flux_request_def test_request_def

section \<open>Reading objects\<close>

lemma map_of_rev_distinct: "distinct (map fst kvs) \<Longrightarrow> map_of (rev kvs) k = map_of kvs k"
proof (induction kvs)
  case Nil
  show ?case by simp
next
  case (Cons kv kvs)
  obtain a b where kv: "kv = (a, b)" by (cases kv)
  from Cons.prems kv have none: "map_of (rev kvs) a = None"
    by (simp add: map_of_eq_None_iff)
  from Cons kv have ih: "map_of (rev kvs) k = map_of kvs k" by simp
  show ?case
  proof (cases "k = a")
    case True
    then show ?thesis by (simp add: kv map_add_def none del: map_of_eq_None_iff)
  next
    case False
    then show ?thesis by (simp add: kv map_add_def ih split: option.splits)
  qed
qed

lemma distinct_stringify:
  "distinct (map fst kvs) \<Longrightarrow>
   distinct (map fst (map (\<lambda>(k, v). (k, JSON_stringify v))
                        (filter (\<lambda>(k, v). v \<noteq> JUndefined) kvs)))"
  by (induction kvs) force+

lemma map_of_stringify:
  "distinct (map fst kvs) \<Longrightarrow>
   map_of (map (\<lambda>(k, v). (k, JSON_stringify v)) (filter (\<lambda>(k, v). v \<noteq> JUndefined) kvs)) k =
   (case map_of kvs k of
      None \<Rightarrow> None
    | Some v \<Rightarrow> if v = JUndefined then None else Some (JSON_stringify v))"
  by (induction kvs) (auto simp: map_of_eq_None_iff image_iff split: option.splits)

lemma read_prop_stringify:
  assumes "distinct (map fst kvs)"
  shows "read_prop (JSON_stringify (JObject kvs)) k = JSON_stringify (read_prop (JObject kvs) k)"
  using assms distinct_stringify [OF assms]
  by (simp add: map_of_rev_distinct map_of_stringify split: option.splits)

lemma map_of_define_props:
  "map_of (define_props new obj) k =
   (case map_of (rev new) k of Some v \<Rightarrow> Some v | None \<Rightarrow> map_of obj k)"
proof (induction new arbitrary: obj)
  case Nil
  show ?case by (simp add: define_props_def)
next
  case (Cons kv new)
  obtain a b where kv: "kv = (a, b)" by (cases kv)
  have "define_props (kv # new) obj = define_props new (AList.update a b obj)"
    by (simp add: define_props_def kv)
  then show ?case
    using Cons.IH [of "AList.update a b obj"]
    by (simp add: kv update_conv' map_add_def split: option.splits)
qed

lemma distinct_define_props:
  "distinct (map fst obj) \<Longrightarrow> distinct (map fst (define_props new obj))"
proof (induction new arbitrary: obj)
  case Nil
  then show ?case by (simp add: define_props_def)
next
  case (Cons kv new)
  obtain a b where kv: "kv = (a, b)" by (cases kv)
  have "define_props (kv # new) obj = define_props new (AList.update a b obj)"
    by (simp add: define_props_def kv)
  with Cons show ?case by (simp add: distinct_update)
qed

lemma merged_with_literal:
  assumes "distinct (map fst extras)"
  shows "merged_with (JSON_stringify (JObject (define_props extras (define_props (own_props up) []))))
           up extras"
proof -
  have d: "distinct (map fst (define_props extras (define_props (own_props up) [])))"
    by (simp add: distinct_define_props)
  show ?thesis
    unfolding merged_with_def
    by (simp add: read_prop_stringify [OF d] map_of_rev_distinct [OF d] map_of_define_props
        map_of_rev_distinct [OF assms] del: JSON_stringify.simps(1) split: option.splits)
qed

section \<open>The admission gate serialises in submission order\<close>

lemma open_task_member: "x \<in> set (open_task h) \<Longrightarrow> open_task h = [x]"
  by (induction h rule: open_task.induct) auto

lemma open_task_length: "length (open_task h) \<le> 1"
  by (induction h rule: open_task.induct) auto

lemma serial_snoc_started:
  "serial h \<Longrightarrow> open_task h = [] \<Longrightarrow>
   serial (h @ [Started t]) \<and> open_task (h @ [Started t]) = [t]"
  by (induction h rule: serial.induct) auto

lemma serial_snoc_settled:
  "serial h \<Longrightarrow> open_task h = [t] \<Longrightarrow>
   serial (h @ [Settled t]) \<and> open_task (h @ [Settled t]) = []"
  by (induction h rule: serial.induct) auto

lemma started_append: "started (h @ h') = started h @ started h'"
  by (induction h rule: started.induct) auto

lemma submitted_append: "submitted (a @ b) = submitted a @ submitted b"
  by (induction a rule: submitted.induct) auto

lemma gate_inv_submit:
  assumes "gate_inv g"
  shows "gate_inv (submit t g)"
    and "started (history (submit t g)) @ waiting (submit t g) =
         started (history g) @ waiting g @ [t]"
  using assms serial_snoc_started [of "history g"]
  by (auto simp: gate_inv_def submit_def start_next_def started_append split: list.splits)

lemma gate_order_complete:
  "started (history (complete t g)) @ waiting (complete t g) = started (history g) @ waiting g"
  by (auto simp: complete_def start_next_def started_append split: list.splits)

lemma gate_inv_complete:
  assumes "gate_inv g"
  shows "gate_inv (complete t g)"
proof (cases "t \<in> set (running g)")
  case False
  with assms show ?thesis by (simp add: complete_def)
next
  case True
  with assms have r: "open_task (history g) = [t]" "running g = [t]"
    by (auto simp: gate_inv_def dest: open_task_member)
  from assms have s: "serial (history g)" and l: "limit g = 1"
    by (simp_all add: gate_inv_def)
  from serial_snoc_settled [OF s r(1)]
  have s1: "serial (history g @ [Settled t])" "open_task (history g @ [Settled t]) = []"
    by simp_all
  from serial_snoc_started [OF s1]
  have s2: "\<And>u. serial (history g @ [Settled t, Started u])"
    "\<And>u. open_task (history g @ [Settled t, Started u]) = [u]"
    by simp_all
  show ?thesis
    using True r s1 s2 l
    by (auto simp: gate_inv_def complete_def start_next_def split: list.splits)
qed

lemma gate_run:
  "gate_inv (run_gate 1 acts) \<and>
   started (history (run_gate 1 acts)) @ waiting (run_gate 1 acts) = submitted acts"
proof (induction acts rule: rev_induct)
  case Nil
  show ?case by (simp add: run_gate_def new_gate_def gate_inv_def)
next
  case (snoc a acts)
  then show ?case
    by (cases a)
       (simp_all add: run_gate_def submitted_append gate_inv_submit gate_inv_complete
          gate_order_complete)
qed

text \<open>
  C1. Whatever tasks are submitted to a gate of limit 1 and in whatever order the tasks in
  flight settle, at every moment at most one task is in flight, each task that began has
  settled before the next one begins, and the tasks begun so far followed by the tasks
  still waiting are the tasks submitted, in the order of submission.
\<close>

theorem gate_serial_fifo:
  "length (running (run_gate 1 acts)) \<le> 1 \<and>
   serial (history (run_gate 1 acts)) \<and>
   started (history (run_gate 1 acts)) @ waiting (run_gate 1 acts) = submitted acts"
  using gate_run [of acts] open_task_length [of "history (run_gate 1 acts)"]
  by (simp add: gate_inv_def)

text \<open>
  Three tasks submitted in the order A, B, C, each settling when it is its turn: A begins
  and settles, then B, then C.
\<close>

theorem gate_serial_fifo_witness:
  "history (run_gate 1 [Submit ''A'', Submit ''B'', Submit ''C'',
                        Complete ''A'', Complete ''B'', Complete ''C'']) =
     [Started ''A'', Settled ''A'', Started ''B'', Settled ''B'', Started ''C'', Settled ''C''] \<and>
   serial (history (run_gate 1 [Submit ''A'', Submit ''B'', Submit ''C'',
                                Complete ''A'', Complete ''B'', Complete ''C''])) \<and>
   length (running (run_gate 1 [Submit ''A'', Submit ''B'', Submit ''C'',
                                Complete ''A'', Complete ''B'', Complete ''C''])) \<le> 1"
proof -
  let ?acts = "[Submit ''A'', Submit ''B'', Submit ''C'',
                Complete ''A'', Complete ''B'', Complete ''C'']"
  have h: "history (run_gate 1 ?acts) =
     [Started ''A'', Settled ''A'', Started ''B'', Settled ''B'', Started ''C'', Settled ''C'']"
    by (simp add: run_gate_def new_gate_def submit_def complete_def start_next_def)
  from gate_serial_fifo [of ?acts] h show ?thesis by blast
qed

section \<open>The block for status 429\<close>

lemma rate_limited_invalid:
  "JSON_parse g t = Inl m \<Longrightarrow> rate_limited g t = SyntaxError g m"
  by (simp add: rate_limited_def)

lemma rate_limited_built:
  assumes "JSON_parse g t = Inr errorData" and "\<not> nullish errorData"
    and "ToString g (js_or (read_prop errorData ''detail'') (JString ''Rate limited'')) = Some msg"
  shows "rate_limited g t =
    (new_Error g msg)\<lparr>status := Some 429,
       retry_after := Some (js_or (read_prop errorData ''retry_after'') (JNum 10))\<rparr>"
  using assms by (simp add: rate_limited_def member_def)

lemma callSDXLAPI_429:
  assumes "fetch c = (\<lambda>rq. Inr response)" and "response_status response = 429"
  shows "snd (callSDXLAPI c i p n) = Inl (rate_limited (eng c) (response_text response))"
  using assms by (simp add: callSDXLAPI_def addToQueue_def ok_def Let_def)

lemma callFluxAPI_429:
  assumes "fetch c = (\<lambda>rq. Inr response)" and "response_status response = 429"
  shows "snd (callFluxAPI c i p n) = Inl (rate_limited (eng c) (response_text response))"
  using assms by (simp add: callFluxAPI_def addToQueue_def ok_def Let_def)

lemma testSDXLLightning_task_429:
  assumes "fetch c = (\<lambda>rq. Inr response)" and "response_status response = 429"
  shows "snd (testSDXLLightning_task c i p) = Inl (rate_limited (eng c) (response_text response))"
  using assms by (simp add: testSDXLLightning_task_def ok_def Let_def)

section \<open>The upstream call of a handler\<close>

lemma fst_callSDXLAPI: "fst (callSDXLAPI c i p n) = [sdxl_request (env c) i p n]"
  by (simp add: callSDXLAPI_def addToQueue_def Let_def split: sum.splits)

lemma fst_callFluxAPI: "fst (callFluxAPI c i p n) = [flux_request (env c) i p n]"
  by (simp add: callFluxAPI_def addToQueue_def Let_def split: sum.splits)

lemma fst_callReplicateAPI: "fst (callReplicateAPI c i p n) = [flux_request (env c) i p n]"
  by (simp add: callReplicateAPI_def Let_def split: sum.splits)

lemma sdxl_payload:
  "url (sdxl_request e i p n) = sdxl_url \<and>
   read_prop (read_prop (http_body (sdxl_request e i p n)) ''input'') ''num_inference_steps'' = JNum 4 \<and>
   read_prop (read_prop (http_body (sdxl_request e i p n)) ''input'') ''guidance_scale'' = JNum 0"
  by (simp add: sdxl_request_def read_prop_stringify del: JSON_stringify.simps(1))

lemma flux_payload:
  "url (flux_request e i p n) = flux_url \<and>
   read_prop (read_prop (http_body (flux_request e i p n)) ''input'') ''num_inference_steps'' = JNum 24 \<and>
   read_prop (read_prop (http_body (flux_request e i p n)) ''input'') ''guidance'' = JNum 12"
  by (simp add: flux_request_def read_prop_stringify del: JSON_stringify.simps(1))

lemma step_reached: "fst (step m f) \<noteq> [] \<Longrightarrow> \<exists>x. m = Inr x \<and> step m f = f x"
  by (cases m) (simp_all add: step_def)

lemma fst_answer_200: "fst (answer_200 b api) = fst api"
  by (simp add: answer_200_def split: prod.splits sum.splits)

lemma snd_answer_200:
  "snd (answer_200 b api) = (case snd api of Inl e \<Rightarrow> Inl e | Inr v \<Rightarrow> Inr (200, b v))"
  by (simp add: answer_200_def split: prod.splits sum.splits)

lemma call_model_reached:
  assumes "fst (call_model c u i fp style artist) \<noteq> []"
  shows "(truthy u \<and> (\<exists>p n. call_model c u i fp style artist = callSDXLAPI c i p n)) \<or>
         (\<not> truthy u \<and> (\<exists>cs. call_model c u i fp style artist = callFluxAPI c i fp cs))"
proof (cases "truthy u")
  case True
  with assms obtain converted where
    1: "call_model c u i fp style artist =
        step (member (eng c) ''convertFluxToSDXL(...)'' converted ''prompt'') (\<lambda>sdxlPrompt.
          callSDXLAPI c i sdxlPrompt (read_prop converted ''negative_prompt''))"
    using step_reached [of "convertFluxToSDXL (svc c) fp style artist"]
    by (fastforce simp: call_model_def)
  with assms obtain p where "call_model c u i fp style artist =
     callSDXLAPI c i p (read_prop converted ''negative_prompt'')"
    using step_reached [of "member (eng c) ''convertFluxToSDXL(...)'' converted ''prompt''"]
    by fastforce
  with True show ?thesis by blast
next
  case False
  with assms obtain cs where "call_model c u i fp style artist = callFluxAPI c i fp cs"
    using step_reached [of "getControlStrength (svc c) fp"]
    by (fastforce simp: call_model_def)
  with False show ?thesis by blast
qed

lemma handler_try_reached_aux:
  assumes "handler_try c req = h" and "fst h \<noteq> []"
  shows "\<exists>a g sel fp artist.
     selectArtistWithAI (svc c) a (read_prop (req_body req) ''style'') g = Inr sel \<and>
     h =
       answer_200 (success_object (with_default (read_prop (req_body req) ''useSDXL'') (JBool True)) sel)
         (call_model c (with_default (read_prop (req_body req) ''useSDXL'') (JBool True))
            (read_prop (req_body req) ''image'') fp (read_prop (req_body req) ''style'') artist)"
  using assms unfolding handler_try_def step_def Let_def
  apply (auto split: sum.splits if_splits)
  apply (intro exI conjI)
   apply assumption
  apply (rule refl)
  done

lemma handler_try_reached:
  assumes "fst (handler_try c req) \<noteq> []"
  shows "\<exists>a g sel fp artist.
     selectArtistWithAI (svc c) a (read_prop (req_body req) ''style'') g = Inr sel \<and>
     handler_try c req =
       answer_200 (success_object (with_default (read_prop (req_body req) ''useSDXL'') (JBool True)) sel)
         (call_model c (with_default (read_prop (req_body req) ''useSDXL'') (JBool True))
            (read_prop (req_body req) ''image'') fp (read_prop (req_body req) ''style'') artist)"
  using handler_try_reached_aux [OF refl assms] .

lemma handler_try_api:
  assumes "fst (handler_try c req) \<noteq> []"
  shows "\<exists>sel api a g.
     selectArtistWithAI (svc c) a (read_prop (req_body req) ''style'') g = Inr sel \<and>
     handler_try c req =
       answer_200 (success_object (with_default (read_prop (req_body req) ''useSDXL'') (JBool True)) sel) api \<and>
     fst api \<noteq> [] \<and>
     ((truthy (with_default (read_prop (req_body req) ''useSDXL'') (JBool True)) \<and>
        (\<exists>p n. api = callSDXLAPI c (read_prop (req_body req) ''image'') p n)) \<or>
      (\<not> truthy (with_default (read_prop (req_body req) ''useSDXL'') (JBool True)) \<and>
        (\<exists>p cs. api = callFluxAPI c (read_prop (req_body req) ''image'') p cs)))"
proof -
  let ?u = "with_default (read_prop (req_body req) ''useSDXL'') (JBool True)"
  from handler_try_reached [OF assms] obtain a g sel fp artist where
    s: "selectArtistWithAI (svc c) a (read_prop (req_body req) ''style'') g = Inr sel" and
    h: "handler_try c req = answer_200 (success_object ?u sel)
         (call_model c ?u (read_prop (req_body req) ''image'') fp (read_prop (req_body req) ''style'') artist)"
    by blast
  let ?api = "call_model c ?u (read_prop (req_body req) ''image'') fp (read_prop (req_body req) ''style'') artist"
  from assms h have ne: "fst ?api \<noteq> []" by (simp add: fst_answer_200)
  from call_model_reached [OF ne] s h ne show ?thesis by blast
qed

lemma call_model_calls:
  assumes "services_succeed (svc c)"
  shows "fst (call_model c u i fp style artist) \<noteq> []"
proof (cases "truthy u")
  case True
  from assms obtain cv where
    "convertFluxToSDXL (svc c) fp style artist = Inr cv" "\<not> nullish cv"
    unfolding services_succeed_def by blast
  with True show ?thesis
    by (simp add: call_model_def step_def member_def fst_callSDXLAPI)
next
  case False
  from assms obtain cs where "getControlStrength (svc c) fp = Inr cs"
    unfolding services_succeed_def by blast
  with False show ?thesis
    by (simp add: call_model_def step_def fst_callFluxAPI)
qed

lemma valid_request_calls:
  assumes "valid_request c req"
  shows "fst (handler_try c req) \<noteq> []"
proof -
  let ?b = "req_body req"
  let ?style = "read_prop ?b ''style''"
  from assms obtain p g where
    i: "truthy (read_prop ?b ''image'')" and
    p: "p \<noteq> []" "read_prop ?b ''prompt'' = JString p" and
    g: "getStyleGuidelines c ?style = Inr g" and
    s: "services_succeed (svc c)"
    unfolding valid_request_def by blast
  from p(2) have n: "\<not> nullish ?b" by (auto simp: nullish_def)
  from s obtain ia where ia: "analyzeImageForArtist (svc c) (read_prop ?b ''image'') = Inr ia"
    unfolding services_succeed_def by blast
  from s obtain sel where sel: "selectArtistWithAI (svc c) ia ?style g = Inr sel" "\<not> nullish sel"
    unfolding services_succeed_def by blast
  from s obtain bp where
    bp: "buildArtistPrompt (svc c) (JString p) (read_prop sel ''artist'') ?style = Inr bp"
    unfolding services_succeed_def by blast
  from s obtain fp where fp: "cleanupPrompt (svc c) bp = Inr fp"
    unfolding services_succeed_def by blast
  show ?thesis
    using n i p g ia sel bp fp call_model_calls [OF s]
    by (simp add: handler_try_def Let_def step_def substring_0_100_def member_def fst_answer_200)
qed

section \<open>What a POST is answered with\<close>

lemma handler_post_calls:
  "req_method req = ''POST'' \<Longrightarrow> snd (handler c req res0) = fst (handler_try c req)"
  by (simp add: handler_def Let_def split: prod.splits sum.splits)

lemma handler_post_error:
  assumes "req_method req = ''POST''" and "snd (handler_try c req) = Inl error"
  shows "statusCode (fst (handler c req res0)) = 500 \<and>
         sent (fst (handler c req res0)) =
           Some (JObject ((''error'', JString (message error)) #
                   (if NODE_ENV (env c) = Some ''development''
                    then [(''stack'', JString (stack error))] else [])))"
  using assms
  by (cases "handler_try c req")
     (simp add: handler_def Let_def catch_block_def res_json_def res_status_def)

lemma handler_post_answer:
  assumes "req_method req = ''POST''" and "snd (handler_try c req) = Inr (code, obj)"
  shows "statusCode (fst (handler c req res0)) = code \<and>
         sent (fst (handler c req res0)) = Some (JSON_stringify obj)"
  using assms
  by (cases "handler_try c req")
     (simp add: handler_def Let_def res_json_def res_status_def)

lemma handler_refactored_post_calls:
  "req_method req = ''POST'' \<Longrightarrow>
   snd (handler_refactored c req res0) = fst (handler_refactored_try c req)"
  by (simp add: handler_refactored_def Let_def split: prod.splits sum.splits)

lemma handler_refactored_post_error:
  assumes "req_method req = ''POST''" and "snd (handler_refactored_try c req) = Inl error"
  shows "statusCode (fst (handler_refactored c req res0)) = 500 \<and>
         sent (fst (handler_refactored c req res0)) =
           Some (JObject ((''error'', JString (message error)) #
                   (if NODE_ENV (env c) = Some ''development''
                    then [(''stack'', JString (stack error))] else [])))"
  using assms
  by (cases "handler_refactored_try c req")
     (simp add: handler_refactored_def Let_def catch_block_def res_json_def res_status_def)

lemma handler_refactored_post_answer:
  assumes "req_method req = ''POST''" and "snd (handler_refactored_try c req) = Inr (code, obj)"
  shows "statusCode (fst (handler_refactored c req res0)) = code \<and>
         sent (fst (handler_refactored c req res0)) = Some (JSON_stringify obj)"
  using assms
  by (cases "handler_refactored_try c req")
     (simp add: handler_refactored_def Let_def res_json_def res_status_def)

lemma testSDXLLightning_post_calls:
  "req_method req = ''POST'' \<Longrightarrow>
   snd (testSDXLLightning c req res0) = fst (testSDXLLightning_try c req)"
  by (simp add: testSDXLLightning_def Let_def split: prod.splits sum.splits)

lemma testSDXLLightning_post_error:
  assumes "req_method req = ''POST''" and "snd (testSDXLLightning_try c req) = Inl error"
  shows "statusCode (fst (testSDXLLightning c req res0)) = 500 \<and>
         sent (fst (testSDXLLightning c req res0)) =
           Some (JObject ((''error'', JString (message error)) #
                   (if NODE_ENV (env c) = Some ''development''
                    then [(''stack'', JString (stack error))] else [])))"
  using assms
  by (cases "testSDXLLightning_try c req")
     (simp add: testSDXLLightning_def Let_def catch_block_def res_json_def res_status_def)

lemma testSDXLLightning_post_answer:
  assumes "req_method req = ''POST''" and "snd (testSDXLLightning_try c req) = Inr (code, obj)"
  shows "statusCode (fst (testSDXLLightning c req res0)) = code \<and>
         sent (fst (testSDXLLightning c req res0)) = Some (JSON_stringify obj)"
  using assms
  by (cases "testSDXLLightning_try c req")
     (simp add: testSDXLLightning_def Let_def res_json_def res_status_def)

lemma handler_try_429:
  assumes "fetch c = (\<lambda>rq. Inr response)" and "response_status response = 429"
    and "fst (handler_try c req) \<noteq> []"
  shows "snd (handler_try c req) = Inl (rate_limited (eng c) (response_text response))"
proof -
  from handler_try_api [OF assms(3)] obtain sel api where
    h: "handler_try c req = answer_200 (success_object
          (with_default (read_prop (req_body req) ''useSDXL'') (JBool True)) sel) api" and
    api: "(\<exists>p n. api = callSDXLAPI c (read_prop (req_body req) ''image'') p n) \<or>
          (\<exists>p cs. api = callFluxAPI c (read_prop (req_body req) ''image'') p cs)"
    by blast
  from api have "snd api = Inl (rate_limited (eng c) (response_text response))"
    using callSDXLAPI_429 [OF assms(1,2)] callFluxAPI_429 [OF assms(1,2)] by auto
  with h show ?thesis by (simp add: snd_answer_200)
qed

text \<open>
  C8, as amended. When the upstream answers 429 with a body that \<^verbatim>\<open>JSON.parse\<close> reads as
  a value other than \<^verbatim>\<open>null\<close>, and \<^verbatim>\<open>new Error\<close> can print the detail (it always can
  when the detail is missing or falsy), the error thrown by \<^verbatim>\<open>callSDXLAPI\<close>, by
  \<^verbatim>\<open>callFluxAPI\<close> and by the task of \<^verbatim>\<open>testSDXLLightning\<close> has status 429 and: if the
  body has no truthy \<^verbatim>\<open>retry_after\<close> (absent, \<^verbatim>\<open>null\<close>, 0 or another falsy value), its
  \<^verbatim>\<open>retry_after\<close> is the default 10; if the body has no truthy \<^verbatim>\<open>detail\<close>, its
  message is the default \<^verbatim>\<open>Rate limited\<close>.
\<close>

theorem rate_limit_defaults:
  assumes "fetch c = (\<lambda>rq. Inr response)"
    and "response_status response = 429"
    and "JSON_parse (eng c) (response_text response) = Inr errorData"
    and "\<not> nullish errorData"
    and "ToString (eng c) (js_or (read_prop errorData ''detail'') (JString ''Rate limited'')) = Some msg"
    and "thrown = (new_Error (eng c) msg)
           \<lparr>status := Some 429,
            retry_after := Some (js_or (read_prop errorData ''retry_after'') (JNum 10))\<rparr>"
  shows "snd (callSDXLAPI c img prompt negativePrompt) = Inl thrown \<and>
         snd (callFluxAPI c img prompt controlStrength) = Inl thrown \<and>
         snd (testSDXLLightning_task c img prompt) = Inl thrown \<and>
         status thrown = Some 429 \<and>
         (\<not> truthy (read_prop errorData ''retry_after'') \<longrightarrow> retry_after thrown = Some (JNum 10)) \<and>
         (\<not> truthy (read_prop errorData ''detail'') \<longrightarrow> message thrown = ''Rate limited'')"
proof -
  have r: "rate_limited (eng c) (response_text response) = thrown"
    using rate_limited_built [OF assms(3,4,5)] assms(6) by simp
  have d: "\<not> truthy (read_prop errorData ''detail'') \<Longrightarrow> msg = ''Rate limited''"
    using assms(5) by (simp add: js_or_def)
  show ?thesis
    using callSDXLAPI_429 [OF assms(1,2)] callFluxAPI_429 [OF assms(1,2)]
      testSDXLLightning_task_429 [OF assms(1,2)] r d
    by (auto simp: assms(6) js_or_def new_Error_def)
qed

lemma catch_body_error:
  "read_prop (JObject ((''error'', JString m) #
      (if dev then [(''stack'', JString s)] else []))) ''error'' = JString m"
  by simp

text \<open>
  C2. When the upstream answers every request with status 429 and the body
  \<^verbatim>\<open>{"detail":"slow down","retry_after":15}\<close>, the error thrown by \<^verbatim>\<open>callSDXLAPI\<close> and by
  \<^verbatim>\<open>callFluxAPI\<close> has status 429, \<^verbatim>\<open>retry_after\<close> 15 and the message \<^verbatim>\<open>slow down\<close>, and
  a POST for which \<^verbatim>\<open>handler\<close> reaches the upstream call is answered with status 500 and a
  body whose \<^verbatim>\<open>error\<close> is that message.
\<close>

theorem rate_limit_passthrough:
  assumes "fetch c = (\<lambda>rq. Inr response)"
    and "response_status response = 429"
    and "response_text response = slow_down_body"
    and "JSON_parse (eng c) slow_down_body =
           Inr (JObject [(''detail'', JString ''slow down''), (''retry_after'', JNum 15)])"
  shows "\<exists>thrown.
           snd (callSDXLAPI c img prompt negativePrompt) = Inl thrown \<and>
           snd (callFluxAPI c img prompt controlStrength) = Inl thrown \<and>
           status thrown = Some 429 \<and>
           retry_after thrown = Some (JNum 15) \<and>
           message thrown = ''slow down'' \<and>
           (req_method req = ''POST'' \<and> snd (handler c req res0) \<noteq> [] \<longrightarrow>
              statusCode (fst (handler c req res0)) = 500 \<and>
              (\<exists>body. sent (fst (handler c req res0)) = Some body \<and>
                      read_prop body ''error'' = JString ''slow down''))"
proof -
  let ?thrown = "(new_Error (eng c) ''slow down'')\<lparr>status := Some 429, retry_after := Some (JNum 15)\<rparr>"
  have r: "rate_limited (eng c) (response_text response) = ?thrown"
    using assms(3,4) by (simp add: rate_limited_def member_def nullish_def js_or_def)
  have m: "message ?thrown = ''slow down''" by (simp add: new_Error_def)
  have h: "statusCode (fst (handler c req res0)) = 500 \<and>
           (\<exists>body. sent (fst (handler c req res0)) = Some body \<and>
                   read_prop body ''error'' = JString ''slow down'')"
    if "req_method req = ''POST''" and "snd (handler c req res0) \<noteq> []"
  proof -
    from that have "fst (handler_try c req) \<noteq> []" by (simp add: handler_post_calls)
    from handler_try_429 [OF assms(1,2) this] r
    have "snd (handler_try c req) = Inl ?thrown" by simp
    from handler_post_error [OF that(1) this, of res0] m show ?thesis
      by (simp only: catch_body_error) simp
  qed
  show ?thesis
    using callSDXLAPI_429 [OF assms(1,2)] callFluxAPI_429 [OF assms(1,2)] r m h
    by (intro exI [of _ ?thrown]) simp
qed

text \<open>
  C10. When the upstream answers every request with status 429 and a body that
  \<^verbatim>\<open>JSON.parse\<close> rejects, the error thrown by \<^verbatim>\<open>callSDXLAPI\<close> and by \<^verbatim>\<open>callFluxAPI\<close> is
  the \<^verbatim>\<open>SyntaxError\<close> of \<^verbatim>\<open>JSON.parse\<close>: it has neither \<^verbatim>\<open>status\<close> nor
  \<^verbatim>\<open>retry_after\<close>, and a POST for which \<^verbatim>\<open>handler\<close> reaches the upstream call is answered
  with status 500 and a body whose \<^verbatim>\<open>error\<close> is the message of the parse error.
\<close>

theorem invalid_json_429:
  assumes "fetch c = (\<lambda>rq. Inr response)"
    and "response_status response = 429"
    and "JSON_parse (eng c) (response_text response) = Inl m"
  shows "snd (callSDXLAPI c img prompt negativePrompt) = Inl (SyntaxError (eng c) m) \<and>
         snd (callFluxAPI c img prompt controlStrength) = Inl (SyntaxError (eng c) m) \<and>
         status (SyntaxError (eng c) m) = None \<and>
         retry_after (SyntaxError (eng c) m) = None \<and>
         message (SyntaxError (eng c) m) = m \<and>
         (req_method req = ''POST'' \<and> snd (handler c req res0) \<noteq> [] \<longrightarrow>
            statusCode (fst (handler c req res0)) = 500 \<and>
            (\<exists>body. sent (fst (handler c req res0)) = Some body \<and>
                    read_prop body ''error'' = JString m))"
proof -
  have r: "rate_limited (eng c) (response_text response) = SyntaxError (eng c) m"
    using assms(3) by (rule rate_limited_invalid)
  have m: "message (SyntaxError (eng c) m) = m" by (simp add: SyntaxError_def)
  have h: "statusCode (fst (handler c req res0)) = 500 \<and>
           (\<exists>body. sent (fst (handler c req res0)) = Some body \<and>
                   read_prop body ''error'' = JString m)"
    if "req_method req = ''POST''" and "snd (handler c req res0) \<noteq> []"
  proof -
    from that have "fst (handler_try c req) \<noteq> []" by (simp add: handler_post_calls)
    from handler_try_429 [OF assms(1,2) this] r
    have "snd (handler_try c req) = Inl (SyntaxError (eng c) m)" by simp
    from handler_post_error [OF that(1) this, of res0] m show ?thesis
      by (simp only: catch_body_error) simp
  qed
  show ?thesis
    using callSDXLAPI_429 [OF assms(1,2)] callFluxAPI_429 [OF assms(1,2)] r m h
    by (simp add: SyntaxError_def)
qed

lemma upstream_request_variant:
  assumes "req_method req = ''POST''"
    and "rq \<in> set (snd (handler c req res0))"
  shows "snd (handler c req res0) = [rq] \<and>
         (read_prop (req_body req) ''useSDXL'' = JBool False \<longrightarrow>
            url rq = flux_url \<and>
            read_prop (read_prop (http_body rq) ''input'') ''num_inference_steps'' = JNum 24 \<and>
            read_prop (read_prop (http_body rq) ''input'') ''guidance'' = JNum 12) \<and>
         (read_prop (req_body req) ''useSDXL'' = JBool True \<or>
          read_prop (req_body req) ''useSDXL'' = JUndefined \<longrightarrow>
            url rq = sdxl_url \<and>
            read_prop (read_prop (http_body rq) ''input'') ''num_inference_steps'' = JNum 4 \<and>
            read_prop (read_prop (http_body rq) ''input'') ''guidance_scale'' = JNum 0)"
proof -
  let ?u = "with_default (read_prop (req_body req) ''useSDXL'') (JBool True)"
  from assms have mem: "rq \<in> set (fst (handler_try c req))" by (simp add: handler_post_calls)
  then have "fst (handler_try c req) \<noteq> []" by auto
  from handler_try_api [OF this] obtain sel api where
    h: "handler_try c req = answer_200 (success_object ?u sel) api" and
    api: "(truthy ?u \<and> (\<exists>p n. api = callSDXLAPI c (read_prop (req_body req) ''image'') p n)) \<or>
          (\<not> truthy ?u \<and> (\<exists>p cs. api = callFluxAPI c (read_prop (req_body req) ''image'') p cs))"
    by blast
  from h have calls: "snd (handler c req res0) = fst api"
    by (simp add: handler_post_calls [OF assms(1)] fst_answer_200)
  from api show ?thesis
  proof (elim disjE conjE exE)
    fix p n
    assume t: "truthy ?u" and a: "api = callSDXLAPI c (read_prop (req_body req) ''image'') p n"
    from a calls assms(2) have rq: "rq = sdxl_request (env c) (read_prop (req_body req) ''image'') p n"
      by (simp add: fst_callSDXLAPI)
    from t have "read_prop (req_body req) ''useSDXL'' \<noteq> JBool False"
      by (auto simp: with_default_def)
    with rq a calls sdxl_payload [of "env c" "read_prop (req_body req) ''image''" p n]
    show ?thesis by (simp add: fst_callSDXLAPI)
  next
    fix p cs
    assume t: "\<not> truthy ?u" and a: "api = callFluxAPI c (read_prop (req_body req) ''image'') p cs"
    from a calls assms(2) have rq: "rq = flux_request (env c) (read_prop (req_body req) ''image'') p cs"
      by (simp add: fst_callFluxAPI)
    from t have "read_prop (req_body req) ''useSDXL'' \<noteq> JBool True"
      "read_prop (req_body req) ''useSDXL'' \<noteq> JUndefined"
      by (auto simp: with_default_def)
    with rq a calls flux_payload [of "env c" "read_prop (req_body req) ''image''" p cs]
    show ?thesis by (simp add: fst_callFluxAPI)
  qed
qed

text \<open>
  C3. For every valid POST request \<^verbatim>\<open>handler\<close> makes exactly one upstream request, and
  its payload follows \<^verbatim>\<open>useSDXL\<close>: with \<^verbatim>\<open>useSDXL\<close> false it goes to the FLUX model with
  \<^verbatim>\<open>num_inference_steps\<close> 24 and \<^verbatim>\<open>guidance\<close> 12; with \<^verbatim>\<open>useSDXL\<close> true or left out of
  the body (it then reads as \<^verbatim>\<open>undefined\<close>) it goes to SDXL Lightning with
  \<^verbatim>\<open>num_inference_steps\<close> 4 and \<^verbatim>\<open>guidance_scale\<close> 0.
\<close>

theorem variant_selection:
  assumes "valid_request c req"
  shows "\<exists>rq. snd (handler c req res0) = [rq] \<and>
         (read_prop (req_body req) ''useSDXL'' = JBool False \<longrightarrow>
            url rq = flux_url \<and>
            read_prop (read_prop (http_body rq) ''input'') ''num_inference_steps'' = JNum 24 \<and>
            read_prop (read_prop (http_body rq) ''input'') ''guidance'' = JNum 12) \<and>
         (read_prop (req_body req) ''useSDXL'' = JBool True \<or>
          read_prop (req_body req) ''useSDXL'' = JUndefined \<longrightarrow>
            url rq = sdxl_url \<and>
            read_prop (read_prop (http_body rq) ''input'') ''num_inference_steps'' = JNum 4 \<and>
            read_prop (read_prop (http_body rq) ''input'') ''guidance_scale'' = JNum 0)"
proof -
  from assms have post: "req_method req = ''POST''" by (simp add: valid_request_def)
  from valid_request_calls [OF assms] have "snd (handler c req res0) \<noteq> []"
    by (simp add: handler_post_calls [OF post])
  then obtain rq where "rq \<in> set (snd (handler c req res0))"
    by (cases "snd (handler c req res0)") auto
  from upstream_request_variant [OF post this] show ?thesis by blast
qed


section \<open>Validation\<close>

lemma handler_try_falsy:
  assumes "\<not> nullish (req_body req)"
    and "\<not> truthy (read_prop (req_body req) ''image'') \<or> \<not> truthy (read_prop (req_body req) ''prompt'')"
  shows "handler_try c req = ([], Inr (400, missing_fields))"
    and "handler_refactored_try c req = ([], Inr (400, missing_fields))"
    and "testSDXLLightning_try c req = ([], Inr (400, missing_fields))"
  using assms
  by (auto simp: handler_try_def handler_refactored_try_def testSDXLLightning_try_def Let_def)

lemma stringify_missing_fields:
  "JSON_stringify missing_fields =
     JObject [(''error'', JString ''Missing required fields''),
              (''required'', JArray [JString ''image'', JString ''prompt''])]"
  by (simp add: missing_fields_def)

lemma falsy_fields_400:
  assumes "req_method req = ''POST''" and "\<not> nullish (req_body req)"
    and "\<not> truthy (read_prop (req_body req) ''image'') \<or> \<not> truthy (read_prop (req_body req) ''prompt'')"
  shows "statusCode (fst (handler c req res0)) = 400 \<and>
         sent (fst (handler c req res0)) = Some (JSON_stringify missing_fields) \<and>
         snd (handler c req res0) = []"
    and "statusCode (fst (handler_refactored c req res0)) = 400 \<and>
         sent (fst (handler_refactored c req res0)) = Some (JSON_stringify missing_fields) \<and>
         snd (handler_refactored c req res0) = []"
    and "statusCode (fst (testSDXLLightning c req res0)) = 400 \<and>
         sent (fst (testSDXLLightning c req res0)) = Some (JSON_stringify missing_fields) \<and>
         snd (testSDXLLightning c req res0) = []"
  using handler_try_falsy [OF assms(2,3), of c]
    handler_post_answer [OF assms(1), of c 400 missing_fields res0]
    handler_refactored_post_answer [OF assms(1), of c 400 missing_fields res0]
    testSDXLLightning_post_answer [OF assms(1), of c 400 missing_fields res0]
  by (simp_all add: handler_post_calls handler_refactored_post_calls testSDXLLightning_post_calls assms(1))

lemma read_prop_absent:
  "k \<notin> fst ` set kvs \<Longrightarrow> read_prop (JObject kvs) k = JUndefined"
proof -
  assume "k \<notin> fst ` set kvs"
  then have "map_of (rev kvs) k = None" by (simp add: map_of_eq_None_iff)
  then show ?thesis by simp
qed

lemma read_prop_not_own:
  "k \<notin> fst ` set (own_props v) \<Longrightarrow> read_prop v k = JUndefined"
  by (cases v) (simp_all add: read_prop_absent del: read_prop.simps(1))

text \<open>
  C7, as amended. A POST whose body is neither \<^verbatim>\<open>null\<close> nor \<^verbatim>\<open>undefined\<close> and has no
  field \<^verbatim>\<open>image\<close> or no field \<^verbatim>\<open>prompt\<close> (the empty object for one) is answered by
  each of the three handlers with status 400 and the body \<^verbatim>\<open>{ error: 'Missing required
  fields', required: ['image', 'prompt'] }\<close>, and no upstream call is made.
\<close>

theorem missing_fields_400:
  assumes "req_method req = ''POST''"
    and "\<not> nullish (req_body req)"
    and "''image'' \<notin> fst ` set (own_props (req_body req)) \<or>
         ''prompt'' \<notin> fst ` set (own_props (req_body req))"
  shows "statusCode (fst (handler c req res0)) = 400 \<and>
         sent (fst (handler c req res0)) =
           Some (JObject [(''error'', JString ''Missing required fields''),
                          (''required'', JArray [JString ''image'', JString ''prompt''])]) \<and>
         snd (handler c req res0) = [] \<and>
         statusCode (fst (handler_refactored c req res0)) = 400 \<and>
         sent (fst (handler_refactored c req res0)) =
           Some (JObject [(''error'', JString ''Missing required fields''),
                          (''required'', JArray [JString ''image'', JString ''prompt''])]) \<and>
         snd (handler_refactored c req res0) = [] \<and>
         statusCode (fst (testSDXLLightning c req res0)) = 400 \<and>
         sent (fst (testSDXLLightning c req res0)) =
           Some (JObject [(''error'', JString ''Missing required fields''),
                          (''required'', JArray [JString ''image'', JString ''prompt''])]) \<and>
         snd (testSDXLLightning c req res0) = []"
proof -
  from assms(3) have
    "read_prop (req_body req) ''image'' = JUndefined \<or>
     read_prop (req_body req) ''prompt'' = JUndefined"
    using read_prop_not_own [of "''image''" "req_body req"]
      read_prop_not_own [of "''prompt''" "req_body req"] by blast
  then have f: "\<not> truthy (read_prop (req_body req) ''image'') \<or>
                \<not> truthy (read_prop (req_body req) ''prompt'')"
    by (elim disjE) simp_all
  from falsy_fields_400 [OF assms(1,2) f, of c res0] show ?thesis
    by (simp only: stringify_missing_fields)
qed

text \<open>
  C9. The check is on truthiness: a POST whose body is an object that has the field
  \<^verbatim>\<open>image\<close> or the field \<^verbatim>\<open>prompt\<close> with a falsy value (the empty string, 0, \<^verbatim>\<open>null\<close>,
  \<^verbatim>\<open>false\<close>) gets from \<^verbatim>\<open>handler\<close> and from \<^verbatim>\<open>testSDXLLightning\<close> the 400 response of
  a missing field, and no upstream call is made.
\<close>

theorem falsy_field_rejected:
  assumes "req_method req = ''POST''"
    and "req_body req = JObject kvs"
    and "k = ''image'' \<or> k = ''prompt''"
    and "k \<in> fst ` set kvs"
    and "\<not> truthy (read_prop (JObject kvs) k)"
  shows "statusCode (fst (handler c req res0)) = 400 \<and>
         sent (fst (handler c req res0)) =
           Some (JObject [(''error'', JString ''Missing required fields''),
                          (''required'', JArray [JString ''image'', JString ''prompt''])]) \<and>
         snd (handler c req res0) = [] \<and>
         statusCode (fst (testSDXLLightning c req res0)) = 400 \<and>
         sent (fst (testSDXLLightning c req res0)) =
           Some (JObject [(''error'', JString ''Missing required fields''),
                          (''required'', JArray [JString ''image'', JString ''prompt''])]) \<and>
         snd (testSDXLLightning c req res0) = []"
proof -
  have n: "\<not> nullish (req_body req)" by (simp add: assms(2) nullish_def)
  from assms(3,5) have f: "\<not> truthy (read_prop (req_body req) ''image'') \<or>
                \<not> truthy (read_prop (req_body req) ''prompt'')"
    unfolding assms(2) by blast
  from falsy_fields_400 [OF assms(1) n f, of c res0] show ?thesis
    by (simp only: stringify_missing_fields)
qed

section \<open>Headers\<close>

lemma carries_cors_set:
  "carries_cors
     (setHeader ''Access-Control-Allow-Headers'' ''Content-Type''
       (setHeader ''Access-Control-Allow-Methods'' ms
         (setHeader ''Access-Control-Allow-Origin'' ''*'' res0))) ms"
  by (simp add: carries_cors_def setHeader_def update_conv')

lemma carries_cors_headers: "headers r' = headers r \<Longrightarrow> carries_cors r' ms = carries_cors r ms"
  by (simp add: carries_cors_def)

lemma handler_headers:
  "headers (fst (handler c req res0)) =
   headers (setHeader ''Access-Control-Allow-Headers'' ''Content-Type''
       (setHeader ''Access-Control-Allow-Methods'' ''POST, OPTIONS''
         (setHeader ''Access-Control-Allow-Origin'' ''*'' res0)))"
  by (simp add: handler_def Let_def catch_block_def res_json_def res_status_def res_end_def
      split: prod.splits sum.splits)

lemma handler_refactored_headers:
  "headers (fst (handler_refactored c req res0)) =
   headers (setHeader ''Access-Control-Allow-Headers'' ''Content-Type''
       (setHeader ''Access-Control-Allow-Methods'' ''POST, OPTIONS''
         (setHeader ''Access-Control-Allow-Origin'' ''*'' res0)))"
  by (simp add: handler_refactored_def Let_def catch_block_def res_json_def res_status_def res_end_def
      split: prod.splits sum.splits)

lemma testSDXLLightning_headers:
  "headers (fst (testSDXLLightning c req res0)) =
   headers (setHeader ''Access-Control-Allow-Headers'' ''Content-Type''
       (setHeader ''Access-Control-Allow-Methods'' ''POST, OPTIONS''
         (setHeader ''Access-Control-Allow-Origin'' ''*'' res0)))"
  by (simp add: testSDXLLightning_def Let_def catch_block_def res_json_def res_status_def res_end_def
      split: prod.splits sum.splits)

text \<open>
  C6, as amended. Whatever the request and whatever headers the response already has,
  the response of \<^verbatim>\<open>handler\<close>, of the handler of \<^verbatim>\<open>flux-transfer-refactored.js\<close> and of
  \<^verbatim>\<open>testSDXLLightning\<close> carries \<^verbatim>\<open>Access-Control-Allow-Origin: *\<close>, the allowed methods
  \<^verbatim>\<open>POST, OPTIONS\<close> and the allowed header \<^verbatim>\<open>Content-Type\<close>. The middleware \<^verbatim>\<open>withCORS\<close>
  answers an OPTIONS request itself, with the allowed methods \<^verbatim>\<open>GET, POST, OPTIONS\<close>; on
  any other request the handler it wraps sets the headers again.
\<close>

theorem cors_headers:
  "carries_cors (fst (handler c req res0)) ''POST, OPTIONS'' \<and>
   carries_cors (fst (handler_refactored c req res0)) ''POST, OPTIONS'' \<and>
   carries_cors (fst (testSDXLLightning c req res0)) ''POST, OPTIONS'' \<and>
   (req_method req = ''OPTIONS'' \<longrightarrow>
      carries_cors (fst (withCORS h req res0)) ''GET, POST, OPTIONS'') \<and>
   (req_method req \<noteq> ''OPTIONS'' \<longrightarrow>
      carries_cors (fst (withCORS (as_handler_fn (handler c)) req res0)) ''POST, OPTIONS'')"
proof -
  have 1: "carries_cors (fst (handler c req r)) ''POST, OPTIONS''" for r
    using carries_cors_headers [OF handler_headers] carries_cors_set by blast
  have 2: "carries_cors (fst (handler_refactored c req res0)) ''POST, OPTIONS''"
    using carries_cors_headers [OF handler_refactored_headers] carries_cors_set by blast
  have 3: "carries_cors (fst (testSDXLLightning c req res0)) ''POST, OPTIONS''"
    using carries_cors_headers [OF testSDXLLightning_headers] carries_cors_set by blast
  have 4: "carries_cors (fst (withCORS h req res0)) ''GET, POST, OPTIONS''"
    if "req_method req = ''OPTIONS''"
    using that carries_cors_set [of "''GET, POST, OPTIONS''" res0]
    by (simp add: withCORS_def Let_def res_end_def res_status_def carries_cors_def)
  have 5: "carries_cors (fst (withCORS (as_handler_fn (handler c)) req res0)) ''POST, OPTIONS''"
    if "req_method req \<noteq> ''OPTIONS''"
    using that 1 by (simp add: withCORS_def Let_def as_handler_fn_def)
  from 1 2 3 4 5 show ?thesis by blast
qed

section \<open>Failures\<close>

text \<open>
  C5, as amended. When the \<^verbatim>\<open>try\<close> block of \<^verbatim>\<open>handler\<close>, of the handler of
  \<^verbatim>\<open>flux-transfer-refactored.js\<close> or of \<^verbatim>\<open>testSDXLLightning\<close> throws on a POST, the
  response has status 500 and its body has the message of the error as \<^verbatim>\<open>error\<close>, and
  has a \<^verbatim>\<open>stack\<close> exactly when \<^verbatim>\<open>NODE_ENV\<close> is \<^verbatim>\<open>development\<close>. When a handler
  wrapped by the middleware \<^verbatim>\<open>withErrorHandling\<close> throws, the response has status 500,
  its \<^verbatim>\<open>error\<close> is the fixed text \<^verbatim>\<open>Internal server error\<close>, and both the message and
  the stack are in the body exactly when \<^verbatim>\<open>NODE_ENV\<close> is \<^verbatim>\<open>development\<close>.
\<close>

theorem unexpected_failure_500:
  "(req_method req = ''POST'' \<and> snd (handler_try c req) = Inl error \<longrightarrow>
      statusCode (fst (handler c req res0)) = 500 \<and>
      sent (fst (handler c req res0)) =
        Some (JObject ((''error'', JString (message error)) #
                (if NODE_ENV (env c) = Some ''development''
                 then [(''stack'', JString (stack error))] else [])))) \<and>
   (req_method req = ''POST'' \<and> snd (handler_refactored_try c req) = Inl error \<longrightarrow>
      statusCode (fst (handler_refactored c req res0)) = 500 \<and>
      sent (fst (handler_refactored c req res0)) =
        Some (JObject ((''error'', JString (message error)) #
                (if NODE_ENV (env c) = Some ''development''
                 then [(''stack'', JString (stack error))] else [])))) \<and>
   (req_method req = ''POST'' \<and> snd (testSDXLLightning_try c req) = Inl error \<longrightarrow>
      statusCode (fst (testSDXLLightning c req res0)) = 500 \<and>
      sent (fst (testSDXLLightning c req res0)) =
        Some (JObject ((''error'', JString (message error)) #
                (if NODE_ENV (env c) = Some ''development''
                 then [(''stack'', JString (stack error))] else [])))) \<and>
   (h req res0 = (r, Some error) \<longrightarrow>
      statusCode (fst (withErrorHandling e h req res0)) = 500 \<and>
      sent (fst (withErrorHandling e h req res0)) =
        Some (JObject ((''error'', JString ''Internal server error'') #
                (if NODE_ENV e = Some ''development''
                 then [(''message'', JString (message error)), (''stack'', JString (stack error))]
                 else []))))"
proof -
  have w: "statusCode (fst (withErrorHandling e h req res0)) = 500 \<and>
      sent (fst (withErrorHandling e h req res0)) =
        Some (JObject ((''error'', JString ''Internal server error'') #
                (if NODE_ENV e = Some ''development''
                 then [(''message'', JString (message error)), (''stack'', JString (stack error))]
                 else [])))"
    if "h req res0 = (r, Some error)"
    using that by (simp add: withErrorHandling_def res_json_def res_status_def)
  show ?thesis
    using handler_post_error [of req c error res0]
      handler_refactored_post_error [of req c error res0]
      testSDXLLightning_post_error [of req c error res0] w
    by blast
qed

section \<open>Success\<close>

lemma handler_try_success_aux:
  assumes "handler_try c req = h" and "snd h = Inr (200, obj)"
  shows "\<exists>a g sel fp artist up.
     selectArtistWithAI (svc c) a (read_prop (req_body req) ''style'') g = Inr sel \<and>
     call_model c (with_default (read_prop (req_body req) ''useSDXL'') (JBool True))
        (read_prop (req_body req) ''image'') fp (read_prop (req_body req) ''style'') artist
       = (fst h, Inr up) \<and>
     obj = success_object (with_default (read_prop (req_body req) ''useSDXL'') (JBool True)) sel up"
  using assms unfolding handler_try_def step_def Let_def answer_200_def
  apply (auto split: sum.splits if_splits prod.splits)
  apply (intro exI conjI)
    apply assumption
   apply assumption
  apply (rule refl)
  done

lemma handler_refactored_try_success_aux:
  assumes "handler_refactored_try c req = h" and "snd h = Inr (200, obj)"
  shows "\<exists>a g sel fp cs up.
     selectArtistWithAI (svc c) a (read_prop (req_body req) ''style'') g = Inr sel \<and>
     callReplicateAPI c (read_prop (req_body req) ''image'') fp cs = (fst h, Inr up) \<and>
     obj = success_object_refactored sel up"
  using assms unfolding handler_refactored_try_def step_def Let_def answer_200_def
  apply (auto split: sum.splits if_splits prod.splits)
  apply (intro exI conjI)
    apply assumption
   apply assumption
  apply (rule refl)
  done

lemma upstream_result:
  assumes "callSDXLAPI c i p n = (calls, Inr up) \<or> callFluxAPI c i p n = (calls, Inr up) \<or>
           callReplicateAPI c i p n = (calls, Inr up)"
  shows "\<exists>rq response. calls = [rq] \<and> fetch c rq = Inr response \<and> ok response \<and>
           JSON_parse (eng c) (response_text response) = Inr up"
  using assms
  unfolding callSDXLAPI_def callFluxAPI_def callReplicateAPI_def addToQueue_def Let_def
    response_json_def
  by (auto split: sum.splits if_splits)

lemma call_model_success:
  assumes "call_model c u i fp style artist = (calls, Inr up)"
  shows "\<exists>rq response. calls = [rq] \<and> fetch c rq = Inr response \<and> ok response \<and>
           JSON_parse (eng c) (response_text response) = Inr up"
proof -
  from assms have "fst (call_model c u i fp style artist) \<noteq> []"
    unfolding call_model_def step_def callSDXLAPI_def callFluxAPI_def addToQueue_def Let_def
    by (auto split: sum.splits if_splits)
  from call_model_reached [OF this] assms have
    "\<exists>p n. callSDXLAPI c i p n = (calls, Inr up) \<or> callFluxAPI c i p n = (calls, Inr up)"
    by metis
  then obtain p n where
    "callSDXLAPI c i p n = (calls, Inr up) \<or> callFluxAPI c i p n = (calls, Inr up)"
    by blast
  then show ?thesis using upstream_result [of c i p n calls up] by blast
qed

text \<open>
  C4, as amended. When \<^verbatim>\<open>handler\<close> of \<^verbatim>\<open>flux-transfer-sdxl.js\<close> answers a POST with status
  200, it made one upstream call, and the body is the upstream result's fields merged with
  the five fields \<^verbatim>\<open>selected_artist\<close>, \<^verbatim>\<open>selection_method\<close>, \<^verbatim>\<open>selection_details\<close>,
  \<^verbatim>\<open>model_used\<close> and \<^verbatim>\<open>cost\<close>. When the handler of \<^verbatim>\<open>flux-transfer-refactored.js\<close>
  answers a POST with status 200, the body is the upstream result's fields merged with the
  three fields \<^verbatim>\<open>selected_artist\<close>, \<^verbatim>\<open>selection_method\<close> and \<^verbatim>\<open>selection_details\<close> only.
\<close>

theorem success_body_merge:
  "(req_method req = ''POST'' \<and> statusCode (fst (handler c req res0)) = 200 \<longrightarrow>
      (\<exists>body upstream sel rq response a g.
         sent (fst (handler c req res0)) = Some body \<and>
         snd (handler c req res0) = [rq] \<and>
         fetch c rq = Inr response \<and>
         JSON_parse (eng c) (response_text response) = Inr upstream \<and>
         selectArtistWithAI (svc c) a (read_prop (req_body req) ''style'') g = Inr sel \<and>
         merged_with body upstream
           [(''selected_artist'', read_prop sel ''artist''),
            (''selection_method'', read_prop sel ''method''),
            (''selection_details'', read_prop sel ''details''),
            (''model_used'',
               JString (if truthy (with_default (read_prop (req_body req) ''useSDXL'') (JBool True))
                        then ''SDXL Lightning'' else ''FLUX Depth'')),
            (''cost'',
               if truthy (with_default (read_prop (req_body req) ''useSDXL'') (JBool True))
               then JNum 0.011 else JNum 0.04)])) \<and>
   (req_method req = ''POST'' \<and> statusCode (fst (handler_refactored c req res0)) = 200 \<longrightarrow>
      (\<exists>body upstream sel rq response a g.
         sent (fst (handler_refactored c req res0)) = Some body \<and>
         snd (handler_refactored c req res0) = [rq] \<and>
         fetch c rq = Inr response \<and>
         JSON_parse (eng c) (response_text response) = Inr upstream \<and>
         selectArtistWithAI (svc c) a (read_prop (req_body req) ''style'') g = Inr sel \<and>
         merged_with body upstream
           [(''selected_artist'', read_prop sel ''artist''),
            (''selection_method'', read_prop sel ''method''),
            (''selection_details'', read_prop sel ''details'')]))"
proof (intro conjI impI; elim conjE)
  let ?u = "with_default (read_prop (req_body req) ''useSDXL'') (JBool True)"
  assume post: "req_method req = ''POST''" and ok: "statusCode (fst (handler c req res0)) = 200"
  obtain calls out where h: "handler_try c req = (calls, out)" by (cases "handler_try c req")
  from ok handler_post_error [OF post, of c _ res0] h obtain code obj where
    out: "out = Inr (code, obj)" by (cases out) auto
  with h handler_post_answer [OF post, of c code obj res0] ok have
    code: "code = 200" and body: "sent (fst (handler c req res0)) = Some (JSON_stringify obj)"
    by simp_all
  from handler_try_success_aux [OF h] out code obtain a g sel fp artist up where
    sel: "selectArtistWithAI (svc c) a (read_prop (req_body req) ''style'') g = Inr sel" and
    api: "call_model c ?u (read_prop (req_body req) ''image'') fp
            (read_prop (req_body req) ''style'') artist = (calls, Inr up)" and
    obj: "obj = success_object ?u sel up"
    by auto
  from call_model_success [OF api] obtain rq response where
    up: "calls = [rq]" "fetch c rq = Inr response"
      "JSON_parse (eng c) (response_text response) = Inr up"
    by blast
  have calls: "snd (handler c req res0) = [rq]"
    using handler_post_calls [OF post, of c res0] h up(1) by simp
  have "merged_with (JSON_stringify obj) up
           [(''selected_artist'', read_prop sel ''artist''),
            (''selection_method'', read_prop sel ''method''),
            (''selection_details'', read_prop sel ''details''),
            (''model_used'', JString (if truthy ?u then ''SDXL Lightning'' else ''FLUX Depth'')),
            (''cost'', if truthy ?u then JNum 0.011 else JNum 0.04)]"
    unfolding obj success_object_def by (rule merged_with_literal) simp
  with body calls up(2,3) sel
  show "\<exists>body upstream sel rq response a g.
         sent (fst (handler c req res0)) = Some body \<and>
         snd (handler c req res0) = [rq] \<and>
         fetch c rq = Inr response \<and>
         JSON_parse (eng c) (response_text response) = Inr upstream \<and>
         selectArtistWithAI (svc c) a (read_prop (req_body req) ''style'') g = Inr sel \<and>
         merged_with body upstream
           [(''selected_artist'', read_prop sel ''artist''),
            (''selection_method'', read_prop sel ''method''),
            (''selection_details'', read_prop sel ''details''),
            (''model_used'', JString (if truthy ?u then ''SDXL Lightning'' else ''FLUX Depth'')),
            (''cost'', if truthy ?u then JNum 0.011 else JNum 0.04)]"
    by blast
next
  assume post: "req_method req = ''POST''"
    and ok: "statusCode (fst (handler_refactored c req res0)) = 200"
  obtain calls out where h: "handler_refactored_try c req = (calls, out)"
    by (cases "handler_refactored_try c req")
  from ok handler_refactored_post_error [OF post, of c _ res0] h obtain code obj where
    out: "out = Inr (code, obj)" by (cases out) auto
  with h handler_refactored_post_answer [OF post, of c code obj res0] ok have
    code: "code = 200"
    and body: "sent (fst (handler_refactored c req res0)) = Some (JSON_stringify obj)"
    by simp_all
  from handler_refactored_try_success_aux [OF h] out code obtain a g sel fp cs up where
    sel: "selectArtistWithAI (svc c) a (read_prop (req_body req) ''style'') g = Inr sel" and
    api: "callReplicateAPI c (read_prop (req_body req) ''image'') fp cs = (calls, Inr up)" and
    obj: "obj = success_object_refactored sel up"
    by auto
  from upstream_result [of c "read_prop (req_body req) ''image''" fp cs calls up] api
  obtain rq response where
    up: "calls = [rq]" "fetch c rq = Inr response"
      "JSON_parse (eng c) (response_text response) = Inr up"
    by blast
  have calls: "snd (handler_refactored c req res0) = [rq]"
    using handler_refactored_post_calls [OF post, of c res0] h up(1) by simp
  have "merged_with (JSON_stringify obj) up
           [(''selected_artist'', read_prop sel ''artist''),
            (''selection_method'', read_prop sel ''method''),
            (''selection_details'', read_prop sel ''details'')]"
    unfolding obj success_object_refactored_def by (rule merged_with_literal) simp
  with body calls up(2,3) sel
  show "\<exists>body upstream sel rq response a g.
         sent (fst (handler_refactored c req res0)) = Some body \<and>
         snd (handler_refactored c req res0) = [rq] \<and>
         fetch c rq = Inr response \<and>
         JSON_parse (eng c) (response_text response) = Inr upstream \<and>
         selectArtistWithAI (svc c) a (read_prop (req_body req) ''style'') g = Inr sel \<and>
         merged_with body upstream
           [(''selected_artist'', read_prop sel ''artist''),
            (''selection_method'', read_prop sel ''method''),
            (''selection_details'', read_prop sel ''details'')]"
    by blast
qed

section \<open>Runs on the concrete environment\<close>

lemmas run_defs = example_defs handler_defs call_defs Let_def show_nat.simps digit_char_def

lemma example_post: "req_method (example_request extra) = ''POST''"
  by (simp add: example_request_def)

lemma example_fetch: "fetch (example_ctx mode response) = (\<lambda>rq. Inr response)"
  by (simp add: example_ctx_def)

theorem rate_limit_defaults_witness:
  "snd (callSDXLAPI (example_ctx None \<lparr>response_status = 429, response_text = ''{}''\<rparr>)
          (JString ''i'') (JString ''p'') JUndefined) =
     Inl \<lparr>error_name = ''Error'', message = ''Rate limited'', stack = ''Error: Rate limited'',
          status = Some 429, retry_after = Some (JNum 10)\<rparr> \<and>
   snd (testSDXLLightning_task (example_ctx None \<lparr>response_status = 429, response_text = ''{}''\<rparr>)
          (JString ''i'') (JString ''p'')) =
     Inl \<lparr>error_name = ''Error'', message = ''Rate limited'', stack = ''Error: Rate limited'',
          status = Some 429, retry_after = Some (JNum 10)\<rparr> \<and>
   snd (callFluxAPI (example_ctx None \<lparr>response_status = 429, response_text = falsy_body\<rparr>)
          (JString ''i'') (JString ''p'') (JNum 0.8)) =
     Inl \<lparr>error_name = ''Error'', message = ''Rate limited'', stack = ''Error: Rate limited'',
          status = Some 429, retry_after = Some (JNum 10)\<rparr> \<and>
   snd (callSDXLAPI (example_ctx None \<lparr>response_status = 429, response_text = slow_down_body\<rparr>)
          (JString ''i'') (JString ''p'') JUndefined) =
     Inl \<lparr>error_name = ''Error'', message = ''slow down'', stack = ''Error: slow down'',
          status = Some 429, retry_after = Some (JNum 15)\<rparr>"
proof -
  let ?r1 = "\<lparr>response_status = 429, response_text = ''{}''\<rparr>"
  let ?r2 = "\<lparr>response_status = 429, response_text = falsy_body\<rparr>"
  let ?r3 = "\<lparr>response_status = 429, response_text = slow_down_body\<rparr>"
  let ?d2 = "JObject [(''detail'', JNull), (''retry_after'', JNum 0)]"
  let ?d3 = "JObject [(''detail'', JString ''slow down''), (''retry_after'', JNum 15)]"
  have p1: "JSON_parse (eng (example_ctx None ?r1)) (response_text ?r1) = Inr (JObject [])"
    by (simp add: example_defs)
  have p2: "JSON_parse (eng (example_ctx None ?r2)) (response_text ?r2) = Inr ?d2"
    by (simp add: example_defs)
  have p3: "JSON_parse (eng (example_ctx None ?r3)) (response_text ?r3) = Inr ?d3"
    by (simp add: example_defs)
  have n1: "\<not> nullish (JObject [])" and n2: "\<not> nullish ?d2" and n3: "\<not> nullish ?d3"
    by (simp_all add: nullish_def)
  have t1: "ToString (eng (example_ctx None ?r1))
              (js_or (read_prop (JObject []) ''detail'') (JString ''Rate limited''))
             = Some ''Rate limited''"
    by (simp add: js_or_def)
  have t2: "ToString (eng (example_ctx None ?r2))
              (js_or (read_prop ?d2 ''detail'') (JString ''Rate limited''))
             = Some ''Rate limited''"
    by (simp add: js_or_def)
  have t3: "ToString (eng (example_ctx None ?r3))
              (js_or (read_prop ?d3 ''detail'') (JString ''Rate limited''))
             = Some ''slow down''"
    by (simp add: js_or_def)
  have s1: "response_status ?r1 = 429" and s2: "response_status ?r2 = 429"
    and s3: "response_status ?r3 = 429" by simp_all
  from rate_limit_defaults [OF example_fetch s1 p1 n1 t1 refl,
      of "JString ''i''" "JString ''p''" JUndefined JUndefined]
    rate_limit_defaults [OF example_fetch s2 p2 n2 t2 refl,
      of "JString ''i''" "JString ''p''" JUndefined "JNum 0.8"]
    rate_limit_defaults [OF example_fetch s3 p3 n3 t3 refl,
      of "JString ''i''" "JString ''p''" JUndefined JUndefined]
  show ?thesis
    by (simp add: js_or_def new_Error_def example_ctx_def example_engine_def)
qed

text \<open>
  The claim fails where the block for status 429 throws before it sets \<^verbatim>\<open>retry_after\<close>:
  on the body \<^verbatim>\<open>null\<close> the read of \<^verbatim>\<open>detail\<close> throws, and on a detail that has an own
  property \<^verbatim>\<open>toString\<close> the constructor \<^verbatim>\<open>new Error\<close> throws. Both bodies lack a truthy
  \<^verbatim>\<open>retry_after\<close>; the error thrown is a \<^verbatim>\<open>TypeError\<close> with neither \<^verbatim>\<open>status\<close> nor
  \<^verbatim>\<open>retry_after\<close>.
\<close>

theorem rate_limit_null_body_counterexample:
  "snd (callSDXLAPI (example_ctx None \<lparr>response_status = 429, response_text = ''null''\<rparr>)
          (JString ''i'') (JString ''p'') JUndefined) =
     Inl \<lparr>error_name = ''TypeError'', message = ''Cannot evaluate errorData.detail'',
          stack = ''TypeError: Cannot evaluate errorData.detail'',
          status = None, retry_after = None\<rparr> \<and>
   snd (callFluxAPI (example_ctx None \<lparr>response_status = 429, response_text = toString_body\<rparr>)
          (JString ''i'') (JString ''p'') (JNum 0.8)) =
     Inl \<lparr>error_name = ''TypeError'', message = ''Cannot evaluate new Error(errorData.detail)'',
          stack = ''TypeError: Cannot evaluate new Error(errorData.detail)'',
          status = None, retry_after = None\<rparr>"
  by (simp add: example_defs call_defs member_def nullish_def Let_def)

theorem rate_limit_passthrough_witness:
  "snd (handler (example_ctx None \<lparr>response_status = 429, response_text = slow_down_body\<rparr>)
          (example_request []) new_res) \<noteq> [] \<and>
   statusCode (fst (handler (example_ctx None \<lparr>response_status = 429, response_text = slow_down_body\<rparr>)
          (example_request []) new_res)) = 500 \<and>
   (\<exists>body. sent (fst (handler (example_ctx None \<lparr>response_status = 429, response_text = slow_down_body\<rparr>)
          (example_request []) new_res)) = Some body \<and>
          read_prop body ''error'' = JString ''slow down'') \<and>
   (\<exists>thrown. snd (callSDXLAPI (example_ctx None \<lparr>response_status = 429, response_text = slow_down_body\<rparr>)
          (JString ''i'') (JString ''p'') JUndefined) = Inl thrown \<and>
          status thrown = Some 429 \<and> retry_after thrown = Some (JNum 15) \<and>
          message thrown = ''slow down'')"
proof -
  let ?resp = "\<lparr>response_status = 429, response_text = slow_down_body\<rparr>"
  let ?c = "example_ctx None ?resp"
  have s: "response_status ?resp = 429" and t: "response_text ?resp = slow_down_body" by simp_all
  have p: "JSON_parse (eng ?c) slow_down_body =
             Inr (JObject [(''detail'', JString ''slow down''), (''retry_after'', JNum 15)])"
    by (simp add: example_ctx_def example_engine_def)
  have reached: "snd (handler ?c (example_request []) new_res) \<noteq> []"
    by (simp add: run_defs)
  from rate_limit_passthrough [OF example_fetch s t p,
      of "JString ''i''" "JString ''p''" JUndefined JUndefined "example_request []" new_res]
    example_post [of "[]"] reached
  show ?thesis by blast
qed

theorem invalid_json_429_witness:
  "snd (handler (example_ctx None \<lparr>response_status = 429, response_text = ''<html>''\<rparr>)
          (example_request [(''useSDXL'', JBool False)]) new_res) \<noteq> [] \<and>
   statusCode (fst (handler (example_ctx None \<lparr>response_status = 429, response_text = ''<html>''\<rparr>)
          (example_request [(''useSDXL'', JBool False)]) new_res)) = 500 \<and>
   (\<exists>body. sent (fst (handler (example_ctx None \<lparr>response_status = 429, response_text = ''<html>''\<rparr>)
          (example_request [(''useSDXL'', JBool False)]) new_res)) = Some body \<and>
          read_prop body ''error'' = JString ''Unexpected token in JSON'') \<and>
   snd (callFluxAPI (example_ctx None \<lparr>response_status = 429, response_text = ''<html>''\<rparr>)
          (JString ''i'') (JString ''p'') (JNum 0.8)) =
     Inl \<lparr>error_name = ''SyntaxError'', message = ''Unexpected token in JSON'',
          stack = ''SyntaxError: Unexpected token in JSON'', status = None, retry_after = None\<rparr>"
proof -
  let ?resp = "\<lparr>response_status = 429, response_text = ''<html>''\<rparr>"
  let ?c = "example_ctx None ?resp"
  have s: "response_status ?resp = 429" by simp
  have p: "JSON_parse (eng ?c) (response_text ?resp) = Inl ''Unexpected token in JSON''"
    by (simp add: example_defs)
  have reached: "snd (handler ?c (example_request [(''useSDXL'', JBool False)]) new_res) \<noteq> []"
    by (simp add: run_defs)
  have e: "SyntaxError (eng ?c) ''Unexpected token in JSON'' =
     \<lparr>error_name = ''SyntaxError'', message = ''Unexpected token in JSON'',
      stack = ''SyntaxError: Unexpected token in JSON'', status = None, retry_after = None\<rparr>"
    by (simp add: SyntaxError_def example_ctx_def example_engine_def)
  from invalid_json_429 [OF example_fetch s p,
      of "JString ''i''" "JString ''p''" JUndefined "JNum 0.8"
         "example_request [(''useSDXL'', JBool False)]" new_res]
    example_post [of "[(''useSDXL'', JBool False)]"] reached
  show ?thesis unfolding e by blast
qed

lemmas run_folded_defs = example_defs handler_defs callSDXLAPI_def callFluxAPI_def
  callReplicateAPI_def testSDXLLightning_task_def addToQueue_def ok_def response_json_def Let_def

theorem variant_selection_witness:
  "snd (handler (example_ctx None \<lparr>response_status = 200, response_text = output_body\<rparr>)
          (example_request [(''useSDXL'', JBool False)]) new_res) =
     [flux_request \<lparr>NODE_ENV = None, REPLICATE_API_KEY = Some ''key''\<rparr>
        (JString ''data:image/png;base64,AAAA'') (JString ''a portrait'') (JNum 0.8)] \<and>
   read_prop (read_prop (http_body (flux_request \<lparr>NODE_ENV = None, REPLICATE_API_KEY = Some ''key''\<rparr>
        (JString ''data:image/png;base64,AAAA'') (JString ''a portrait'') (JNum 0.8))) ''input'')
      ''num_inference_steps'' = JNum 24 \<and>
   read_prop (read_prop (http_body (flux_request \<lparr>NODE_ENV = None, REPLICATE_API_KEY = Some ''key''\<rparr>
        (JString ''data:image/png;base64,AAAA'') (JString ''a portrait'') (JNum 0.8))) ''input'')
      ''guidance'' = JNum 12 \<and>
   snd (handler (example_ctx None \<lparr>response_status = 200, response_text = output_body\<rparr>)
          (example_request []) new_res) =
     [sdxl_request \<lparr>NODE_ENV = None, REPLICATE_API_KEY = Some ''key''\<rparr>
        (JString ''data:image/png;base64,AAAA'') (JString ''a portrait'') (JString ''blurry'')] \<and>
   read_prop (read_prop (http_body (sdxl_request \<lparr>NODE_ENV = None, REPLICATE_API_KEY = Some ''key''\<rparr>
        (JString ''data:image/png;base64,AAAA'') (JString ''a portrait'') (JString ''blurry''))) ''input'')
      ''num_inference_steps'' = JNum 4 \<and>
   read_prop (read_prop (http_body (sdxl_request \<lparr>NODE_ENV = None, REPLICATE_API_KEY = Some ''key''\<rparr>
        (JString ''data:image/png;base64,AAAA'') (JString ''a portrait'') (JString ''blurry''))) ''input'')
      ''guidance_scale'' = JNum 0"
proof -
  let ?c = "example_ctx None \<lparr>response_status = 200, response_text = output_body\<rparr>"
  let ?e = "\<lparr>NODE_ENV = None, REPLICATE_API_KEY = Some ''key''\<rparr>"
  let ?f = "flux_request ?e (JString ''data:image/png;base64,AAAA'') (JString ''a portrait'') (JNum 0.8)"
  let ?s = "sdxl_request ?e (JString ''data:image/png;base64,AAAA'') (JString ''a portrait'') (JString ''blurry'')"
  have f: "snd (handler ?c (example_request [(''useSDXL'', JBool False)]) new_res) = [?f]"
    by (simp add: run_folded_defs)
  have s: "snd (handler ?c (example_request []) new_res) = [?s]"
    by (simp add: run_folded_defs)
  have uf: "read_prop (req_body (example_request [(''useSDXL'', JBool False)])) ''useSDXL'' = JBool False"
    by (simp add: example_request_def)
  have us: "read_prop (req_body (example_request [])) ''useSDXL'' = JUndefined"
    by (simp add: example_request_def)
  have sv: "services_succeed (svc ?c)"
    by (simp add: services_succeed_def example_ctx_def example_services_def nullish_def)
  have vf: "valid_request ?c (example_request [(''useSDXL'', JBool False)])"
    using sv by (simp add: valid_request_def example_request_def getStyleGuidelines_def)
  have vs: "valid_request ?c (example_request [])"
    using sv by (simp add: valid_request_def example_request_def getStyleGuidelines_def)
  from variant_selection [OF vf, of new_res] uf f variant_selection [OF vs, of new_res] us s
  show ?thesis by auto
qed

theorem missing_fields_400_witness:
  "statusCode (fst (handler (example_ctx None \<lparr>response_status = 200, response_text = output_body\<rparr>)
      \<lparr>req_method = ''POST'', req_body = JObject []\<rparr> new_res)) = 400 \<and>
   sent (fst (handler (example_ctx None \<lparr>response_status = 200, response_text = output_body\<rparr>)
      \<lparr>req_method = ''POST'', req_body = JObject []\<rparr> new_res)) =
     Some (JObject [(''error'', JString ''Missing required fields''),
                    (''required'', JArray [JString ''image'', JString ''prompt''])]) \<and>
   snd (handler (example_ctx None \<lparr>response_status = 200, response_text = output_body\<rparr>)
      \<lparr>req_method = ''POST'', req_body = JObject []\<rparr> new_res) = [] \<and>
   statusCode (fst (handler_refactored
      (example_ctx None \<lparr>response_status = 200, response_text = output_body\<rparr>)
      \<lparr>req_method = ''POST'', req_body = JObject [(''image'', JString ''data:'')]\<rparr> new_res)) = 400 \<and>
   snd (handler_refactored
      (example_ctx None \<lparr>response_status = 200, response_text = output_body\<rparr>)
      \<lparr>req_method = ''POST'', req_body = JObject [(''image'', JString ''data:'')]\<rparr> new_res) = []"
proof -
  let ?req = "\<lparr>req_method = ''POST'', req_body = JObject []\<rparr>"
  let ?req2 = "\<lparr>req_method = ''POST'', req_body = JObject [(''image'', JString ''data:'')]\<rparr>"
  have 1: "req_method ?req = ''POST''" and 2: "\<not> nullish (req_body ?req)"
    by (simp_all add: nullish_def)
  have 3: "''image'' \<notin> fst ` set (own_props (req_body ?req)) \<or>
           ''prompt'' \<notin> fst ` set (own_props (req_body ?req))" by simp
  have 4: "req_method ?req2 = ''POST''" and 5: "\<not> nullish (req_body ?req2)"
    by (simp_all add: nullish_def)
  have 6: "''image'' \<notin> fst ` set (own_props (req_body ?req2)) \<or>
           ''prompt'' \<notin> fst ` set (own_props (req_body ?req2))" by simp
  from missing_fields_400 [OF 1 2 3] missing_fields_400 [OF 4 5 6] show ?thesis by blast
qed

text \<open>
  The claim fails on a POST that has no body: \<^verbatim>\<open>req.body\<close> is then \<^verbatim>\<open>null\<close> or
  \<^verbatim>\<open>undefined\<close>, the destructuring in the \<^verbatim>\<open>try\<close> block throws, and the response is
  500.
\<close>

theorem no_body_counterexample:
  "statusCode (fst (handler (example_ctx None \<lparr>response_status = 200, response_text = output_body\<rparr>)
      \<lparr>req_method = ''POST'', req_body = JNull\<rparr> new_res)) = 500 \<and>
   sent (fst (handler (example_ctx None \<lparr>response_status = 200, response_text = output_body\<rparr>)
      \<lparr>req_method = ''POST'', req_body = JNull\<rparr> new_res)) =
     Some (JObject [(''error'', JString ''Cannot evaluate req.body'')]) \<and>
   statusCode (fst (handler (example_ctx None \<lparr>response_status = 200, response_text = output_body\<rparr>)
      \<lparr>req_method = ''POST'', req_body = JUndefined\<rparr> new_res)) = 500 \<and>
   statusCode (fst (testSDXLLightning
      (example_ctx None \<lparr>response_status = 200, response_text = output_body\<rparr>)
      \<lparr>req_method = ''POST'', req_body = JNull\<rparr> new_res)) = 500"
  by (simp add: run_defs)

theorem falsy_field_rejected_witness:
  "statusCode (fst (handler (example_ctx None \<lparr>response_status = 200, response_text = output_body\<rparr>)
      \<lparr>req_method = ''POST'',
       req_body = JObject [(''image'', JString ''''), (''prompt'', JString ''a portrait'')]\<rparr>
      new_res)) = 400 \<and>
   sent (fst (handler (example_ctx None \<lparr>response_status = 200, response_text = output_body\<rparr>)
      \<lparr>req_method = ''POST'',
       req_body = JObject [(''image'', JString ''''), (''prompt'', JString ''a portrait'')]\<rparr>
      new_res)) =
     Some (JObject [(''error'', JString ''Missing required fields''),
                    (''required'', JArray [JString ''image'', JString ''prompt''])]) \<and>
   snd (handler (example_ctx None \<lparr>response_status = 200, response_text = output_body\<rparr>)
      \<lparr>req_method = ''POST'',
       req_body = JObject [(''image'', JString ''''), (''prompt'', JString ''a portrait'')]\<rparr>
      new_res) = []"
proof -
  let ?kvs = "[(''image'', JString ''''), (''prompt'', JString ''a portrait'')]"
  let ?req = "\<lparr>req_method = ''POST'', req_body = JObject ?kvs\<rparr>"
  have 1: "req_method ?req = ''POST''" and 2: "req_body ?req = JObject ?kvs" by simp_all
  have 3: "''image'' = ''image'' \<or> ''image'' = ''prompt''" by simp
  have 4: "''image'' \<in> fst ` set ?kvs" by simp
  have 5: "\<not> truthy (read_prop (JObject ?kvs) ''image'')" by simp
  from falsy_field_rejected [OF 1 2 3 4 5] show ?thesis by blast
qed

theorem cors_headers_witness:
  "carries_cors (fst (handler (example_ctx None \<lparr>response_status = 200, response_text = output_body\<rparr>)
      \<lparr>req_method = ''OPTIONS'', req_body = JUndefined\<rparr> new_res)) ''POST, OPTIONS'' \<and>
   carries_cors (fst (withCORS (\<lambda>req r. (r, None))
      \<lparr>req_method = ''OPTIONS'', req_body = JUndefined\<rparr> new_res)) ''GET, POST, OPTIONS'' \<and>
   carries_cors (fst (withCORS
      (as_handler_fn (handler (example_ctx None \<lparr>response_status = 200, response_text = output_body\<rparr>)))
      (example_request []) new_res)) ''POST, OPTIONS''"
proof -
  let ?c = "example_ctx None \<lparr>response_status = 200, response_text = output_body\<rparr>"
  let ?req = "\<lparr>req_method = ''OPTIONS'', req_body = JUndefined\<rparr>"
  have 1: "req_method ?req = ''OPTIONS''" by simp
  have 2: "req_method (example_request []) \<noteq> ''OPTIONS''" by (simp add: example_request_def)
  from cors_headers [of ?c ?req new_res "\<lambda>req r. (r, None)"] 1
    cors_headers [of ?c "example_request []" new_res "\<lambda>req r. (r, None)"] 2
  show ?thesis by blast
qed

text \<open>
  The claim fails on the middleware: \<^verbatim>\<open>withCORS\<close> answers a preflight request with the
  allowed methods \<^verbatim>\<open>GET, POST, OPTIONS\<close>.
\<close>

theorem withCORS_preflight_counterexample:
  "headers (fst (withCORS
      (as_handler_fn (handler (example_ctx None \<lparr>response_status = 200, response_text = output_body\<rparr>)))
      \<lparr>req_method = ''OPTIONS'', req_body = JUndefined\<rparr> new_res)) =
     [(''Access-Control-Allow-Origin'', ''*''),
      (''Access-Control-Allow-Methods'', ''GET, POST, OPTIONS''),
      (''Access-Control-Allow-Headers'', ''Content-Type'')] \<and>
   \<not> carries_cors (fst (withCORS
      (as_handler_fn (handler (example_ctx None \<lparr>response_status = 200, response_text = output_body\<rparr>)))
      \<lparr>req_method = ''OPTIONS'', req_body = JUndefined\<rparr> new_res)) ''POST, OPTIONS''"
  by (simp add: withCORS_def Let_def setHeader_def res_end_def res_status_def new_res_def
      carries_cors_def)

theorem unexpected_failure_500_witness:
  "statusCode (fst (handler (example_ctx None \<lparr>response_status = 503, response_text = []\<rparr>)
      (example_request []) new_res)) = 500 \<and>
   sent (fst (handler (example_ctx None \<lparr>response_status = 503, response_text = []\<rparr>)
      (example_request []) new_res)) =
     Some (JObject [(''error'', JString ''SDXL API error: 503'')]) \<and>
   sent (fst (handler (example_ctx (Some ''development'') \<lparr>response_status = 503, response_text = []\<rparr>)
      (example_request []) new_res)) =
     Some (JObject [(''error'', JString ''SDXL API error: 503''),
                    (''stack'', JString ''Error: SDXL API error: 503'')]) \<and>
   sent (fst (withErrorHandling \<lparr>NODE_ENV = Some ''development'', REPLICATE_API_KEY = None\<rparr>
      (\<lambda>req r. (r, Some \<lparr>error_name = ''Error'', message = ''boom'', stack = ''Error: boom'',
                          status = None, retry_after = None\<rparr>))
      (example_request []) new_res)) =
     Some (JObject [(''error'', JString ''Internal server error''),
                    (''message'', JString ''boom''), (''stack'', JString ''Error: boom'')])"
proof -
  let ?resp = "\<lparr>response_status = 503, response_text = []\<rparr>"
  let ?err = "\<lparr>error_name = ''Error'', message = ''SDXL API error: 503'',
               stack = ''Error: SDXL API error: 503'', status = None, retry_after = None\<rparr>"
  let ?boom = "\<lparr>error_name = ''Error'', message = ''boom'', stack = ''Error: boom'',
                status = None, retry_after = None\<rparr>"
  let ?e = "\<lparr>NODE_ENV = Some ''development'', REPLICATE_API_KEY = None\<rparr>"
  have t: "snd (handler_try (example_ctx mode ?resp) (example_request [])) = Inl ?err" for mode
    by (simp add: run_defs)
  have h: "(\<lambda>req r. (r, Some ?boom)) (example_request []) new_res = (new_res, Some ?boom)"
    by simp
  from unexpected_failure_500 [of "example_request []" "example_ctx None ?resp" ?err new_res
      "\<lambda>req r. (r, Some ?boom)" new_res ?e]
    unexpected_failure_500 [of "example_request []" "example_ctx (Some ''development'') ?resp" ?err new_res
      "\<lambda>req r. (r, Some ?boom)" new_res ?e]
    unexpected_failure_500 [of "example_request []" "example_ctx None ?resp" ?boom new_res
      "\<lambda>req r. (r, Some ?boom)" new_res ?e]
    t [of None] t [of "Some ''development''"] example_post [of "[]"]
  show ?thesis by (simp add: example_ctx_def)
qed

text \<open>
  The claim fails on the middleware: outside development mode the response of
  \<^verbatim>\<open>withErrorHandling\<close> does not have the message of the error.
\<close>

theorem withErrorHandling_counterexample:
  "statusCode (fst (withErrorHandling \<lparr>NODE_ENV = Some ''production'', REPLICATE_API_KEY = None\<rparr>
      (\<lambda>req r. (r, Some \<lparr>error_name = ''Error'', message = ''boom'', stack = ''Error: boom'',
                          status = None, retry_after = None\<rparr>))
      \<lparr>req_method = ''POST'', req_body = JObject []\<rparr> new_res)) = 500 \<and>
   sent (fst (withErrorHandling \<lparr>NODE_ENV = Some ''production'', REPLICATE_API_KEY = None\<rparr>
      (\<lambda>req r. (r, Some \<lparr>error_name = ''Error'', message = ''boom'', stack = ''Error: boom'',
                          status = None, retry_after = None\<rparr>))
      \<lparr>req_method = ''POST'', req_body = JObject []\<rparr> new_res)) =
     Some (JObject [(''error'', JString ''Internal server error'')])"
  by (simp add: withErrorHandling_def res_json_def res_status_def new_res_def)

theorem success_body_merge_witness:
  "statusCode (fst (handler (example_ctx None \<lparr>response_status = 200, response_text = output_body\<rparr>)
      (example_request []) new_res)) = 200 \<and>
   (\<exists>body. sent (fst (handler (example_ctx None \<lparr>response_status = 200, response_text = output_body\<rparr>)
      (example_request []) new_res)) = Some body \<and>
      read_prop body ''output'' = JString ''out.jpg'' \<and>
      read_prop body ''selected_artist'' = JString ''Monet'' \<and>
      read_prop body ''selection_method'' = JString ''ai'' \<and>
      read_prop body ''selection_details'' = JString ''soft light'' \<and>
      read_prop body ''model_used'' = JString ''SDXL Lightning'' \<and>
      read_prop body ''cost'' = JNum 0.011)"
proof -
  let ?c = "example_ctx None \<lparr>response_status = 200, response_text = output_body\<rparr>"
  let ?req = "example_request []"
  have ok: "statusCode (fst (handler ?c ?req new_res)) = 200"
    by (simp add: run_defs)
  from success_body_merge [of ?req ?c new_res] example_post [of "[]"] ok
  obtain body upstream sel rq response a g where
    b: "sent (fst (handler ?c ?req new_res)) = Some body" and
    u: "JSON_parse (eng ?c) (response_text response) = Inr upstream"
       "fetch ?c rq = Inr response" and
    s: "selectArtistWithAI (svc ?c) a (read_prop (req_body ?req) ''style'') g = Inr sel" and
    m: "merged_with body upstream
           [(''selected_artist'', read_prop sel ''artist''),
            (''selection_method'', read_prop sel ''method''),
            (''selection_details'', read_prop sel ''details''),
            (''model_used'',
               JString (if truthy (with_default (read_prop (req_body ?req) ''useSDXL'') (JBool True))
                        then ''SDXL Lightning'' else ''FLUX Depth'')),
            (''cost'',
               if truthy (with_default (read_prop (req_body ?req) ''useSDXL'') (JBool True))
               then JNum 0.011 else JNum 0.04)]"
    by blast
  from u(2) have "response = \<lparr>response_status = 200, response_text = output_body\<rparr>"
    by (simp add: example_ctx_def)
  with u(1) have up: "upstream = JObject [(''output'', JString ''out.jpg'')]"
    by (simp add: example_defs)
  from s have sel: "sel = JObject [(''artist'', JString ''Monet''), (''method'', JString ''ai''),
          (''details'', JString ''soft light'')]"
    by (auto simp: example_defs)
  have "read_prop body ''output'' = JString ''out.jpg'' \<and>
      read_prop body ''selected_artist'' = JString ''Monet'' \<and>
      read_prop body ''selection_method'' = JString ''ai'' \<and>
      read_prop body ''selection_details'' = JString ''soft light'' \<and>
      read_prop body ''model_used'' = JString ''SDXL Lightning'' \<and>
      read_prop body ''cost'' = JNum 0.011"
    using m unfolding merged_with_def up sel
    by (simp add: example_request_def with_default_def)
  with ok b show ?thesis by blast
qed

text \<open>
  The claim fails on the handler of \<^verbatim>\<open>flux-transfer-refactored.js\<close>: its 200 response has
  neither \<^verbatim>\<open>model_used\<close> nor \<^verbatim>\<open>cost\<close>.
\<close>

theorem handler_refactored_counterexample:
  "statusCode (fst (handler_refactored
      (example_ctx None \<lparr>response_status = 200, response_text = output_body\<rparr>)
      (example_request []) new_res)) = 200 \<and>
   sent (fst (handler_refactored
      (example_ctx None \<lparr>response_status = 200, response_text = output_body\<rparr>)
      (example_request []) new_res)) =
     Some (JObject [(''output'', JString ''out.jpg''),
                    (''selected_artist'', JString ''Monet''),
                    (''selection_method'', JString ''ai''),
                    (''selection_details'', JString ''soft light'')])"
  by (simp add: run_defs)

end
